theory Spec2Isabelle
  imports Main "HOL-Library.Char_ord" "HOL-Library.List_Lexorder"
begin

section \<open>Course Planner (CSS499Category3.py): a shallow embedding\<close>

text \<open>
  The program is a menu-driven Python script over two SQLite databases,
  \<^verbatim>\<open>course_database.db\<close> (table \<^verbatim>\<open>courses\<close>) and \<^verbatim>\<open>user_database.db\<close>
  (table \<^verbatim>\<open>users\<close>).  The embedding makes explicit what the script leaves to
  its libraries:
  \<^item> a database file holds the \<^emph>\<open>committed\<close> rows of its table; a connection of
    Python's \<^verbatim>\<open>sqlite3\<close> module (default isolation level) opens a transaction
    implicitly before INSERT, UPDATE and DELETE, keeps the changed table to itself
    until \<^verbatim>\<open>commit()\<close>, and loses it on \<^verbatim>\<open>rollback()\<close>, on \<^verbatim>\<open>close()\<close> and when
    the process ends; CREATE TABLE takes effect at once;
  \<^item> \<^verbatim>\<open>input()\<close> reads the next line of a finite input script and raises
    \<^verbatim>\<open>EOFError\<close> when none is left; every loop of the script reads input on each
    round, so every function below is total;
  \<^item> \<^verbatim>\<open>print(...)\<close> appends its argument to a log of printed lines (the two
    menu banners and the prompts of \<^verbatim>\<open>input\<close> are presentation only and are
    not logged);
  \<^item> an exception nobody catches ends the process: it is a value of \<open>py_error\<close>.

  Strings are \<^typ>\<open>string\<close>: a character is a code point from U+0000 to U+00FF.
  On that range the string methods below are Python's, with one exception stated
  at \<open>upper_in_range\<close>; text with code points beyond U+00FF is outside the model.
\<close>

subsection \<open>Python string methods used by the script\<close>

text \<open>The whitespace of \<^verbatim>\<open>str.strip()\<close>, \<^verbatim>\<open>str.split()\<close> and \<^verbatim>\<open>str.isspace()\<close>:
  the ASCII controls 0x09-0x0D and 0x1C-0x1F, the space, U+0085 and U+00A0.\<close>

definition isspace :: "char \<Rightarrow> bool" where
  "isspace c = (c \<in> set [CHR 0x09, CHR 0x0A, CHR 0x0B, CHR 0x0C, CHR 0x0D,
                          CHR 0x1C, CHR 0x1D, CHR 0x1E, CHR 0x1F, CHR 0x20,
                          CHR 0x85, CHR 0xA0])"

definition strip :: "string \<Rightarrow> string" where
  "strip s = rev (dropWhile isspace (rev (dropWhile isspace s)))"

text \<open>\<^verbatim>\<open>str.lower()\<close>: the letters A-Z, and U+00C0-U+00DE without the
  multiplication sign U+00D7, move up by 0x20.\<close>

definition lower_char :: "char \<Rightarrow> char" where
  "lower_char c =
     (case map_of
        (zip (''ABCDEFGHIJKLMNOPQRSTUVWXYZ'' @
              [CHR 0xC0, CHR 0xC1, CHR 0xC2, CHR 0xC3, CHR 0xC4, CHR 0xC5, CHR 0xC6, CHR 0xC7,
               CHR 0xC8, CHR 0xC9, CHR 0xCA, CHR 0xCB, CHR 0xCC, CHR 0xCD, CHR 0xCE, CHR 0xCF,
               CHR 0xD0, CHR 0xD1, CHR 0xD2, CHR 0xD3, CHR 0xD4, CHR 0xD5, CHR 0xD6, CHR 0xD8,
               CHR 0xD9, CHR 0xDA, CHR 0xDB, CHR 0xDC, CHR 0xDD, CHR 0xDE])
             (''abcdefghijklmnopqrstuvwxyz'' @
              [CHR 0xE0, CHR 0xE1, CHR 0xE2, CHR 0xE3, CHR 0xE4, CHR 0xE5, CHR 0xE6, CHR 0xE7,
               CHR 0xE8, CHR 0xE9, CHR 0xEA, CHR 0xEB, CHR 0xEC, CHR 0xED, CHR 0xEE, CHR 0xEF,
               CHR 0xF0, CHR 0xF1, CHR 0xF2, CHR 0xF3, CHR 0xF4, CHR 0xF5, CHR 0xF6, CHR 0xF8,
               CHR 0xF9, CHR 0xFA, CHR 0xFB, CHR 0xFC, CHR 0xFD, CHR 0xFE])) c of
        Some d \<Rightarrow> d | None \<Rightarrow> c)"

text \<open>\<^verbatim>\<open>str.upper()\<close>, character by character: the inverse table; the sharp s
  U+00DF becomes \<^verbatim>\<open>SS\<close>.  The upper case of the micro sign U+00B5 and of
  U+00FF lies beyond U+00FF: the model leaves the two characters as they are, so
  a comparison of the result with ASCII text comes out as in Python, and a
  property that depends on the result itself assumes \<open>upper_in_range\<close>.\<close>

definition upper_char :: "char \<Rightarrow> char" where
  "upper_char c =
     (case map_of
        (zip (''abcdefghijklmnopqrstuvwxyz'' @
              [CHR 0xE0, CHR 0xE1, CHR 0xE2, CHR 0xE3, CHR 0xE4, CHR 0xE5, CHR 0xE6, CHR 0xE7,
               CHR 0xE8, CHR 0xE9, CHR 0xEA, CHR 0xEB, CHR 0xEC, CHR 0xED, CHR 0xEE, CHR 0xEF,
               CHR 0xF0, CHR 0xF1, CHR 0xF2, CHR 0xF3, CHR 0xF4, CHR 0xF5, CHR 0xF6, CHR 0xF8,
               CHR 0xF9, CHR 0xFA, CHR 0xFB, CHR 0xFC, CHR 0xFD, CHR 0xFE])
             (''ABCDEFGHIJKLMNOPQRSTUVWXYZ'' @
              [CHR 0xC0, CHR 0xC1, CHR 0xC2, CHR 0xC3, CHR 0xC4, CHR 0xC5, CHR 0xC6, CHR 0xC7,
               CHR 0xC8, CHR 0xC9, CHR 0xCA, CHR 0xCB, CHR 0xCC, CHR 0xCD, CHR 0xCE, CHR 0xCF,
               CHR 0xD0, CHR 0xD1, CHR 0xD2, CHR 0xD3, CHR 0xD4, CHR 0xD5, CHR 0xD6, CHR 0xD8,
               CHR 0xD9, CHR 0xDA, CHR 0xDB, CHR 0xDC, CHR 0xDD, CHR 0xDE])) c of
        Some d \<Rightarrow> d | None \<Rightarrow> c)"

definition upper_str :: "char \<Rightarrow> string" where
  "upper_str c = (if c = CHR 0xDF then ''SS'' else [upper_char c])"

definition title_str :: "char \<Rightarrow> string" where
  "title_str c = (if c = CHR 0xDF then ''Ss'' else [upper_char c])"

definition upper_in_range :: "string \<Rightarrow> bool" where
  "upper_in_range s = (CHR 0xB5 \<notin> set s \<and> CHR 0xFF \<notin> set s)"

definition lower :: "string \<Rightarrow> string" where
  "lower s = map lower_char s"

definition upper :: "string \<Rightarrow> string" where
  "upper s = concat (map upper_str s)"

text \<open>The cased characters: the letters of both tables, the ordinal indicators
  U+00AA and U+00BA, the micro sign, the sharp s and U+00FF.\<close>

definition iscased :: "char \<Rightarrow> bool" where
  "iscased c =
     (c \<in> set (''ABCDEFGHIJKLMNOPQRSTUVWXYZabcdefghijklmnopqrstuvwxyz'' @
               [CHR 0xAA, CHR 0xB5, CHR 0xBA, CHR 0xDF, CHR 0xFF] @
               [CHR 0xC0, CHR 0xC1, CHR 0xC2, CHR 0xC3, CHR 0xC4, CHR 0xC5, CHR 0xC6, CHR 0xC7,
               CHR 0xC8, CHR 0xC9, CHR 0xCA, CHR 0xCB, CHR 0xCC, CHR 0xCD, CHR 0xCE, CHR 0xCF,
               CHR 0xD0, CHR 0xD1, CHR 0xD2, CHR 0xD3, CHR 0xD4, CHR 0xD5, CHR 0xD6, CHR 0xD8,
               CHR 0xD9, CHR 0xDA, CHR 0xDB, CHR 0xDC, CHR 0xDD, CHR 0xDE] @
               [CHR 0xE0, CHR 0xE1, CHR 0xE2, CHR 0xE3, CHR 0xE4, CHR 0xE5, CHR 0xE6, CHR 0xE7,
               CHR 0xE8, CHR 0xE9, CHR 0xEA, CHR 0xEB, CHR 0xEC, CHR 0xED, CHR 0xEE, CHR 0xEF,
               CHR 0xF0, CHR 0xF1, CHR 0xF2, CHR 0xF3, CHR 0xF4, CHR 0xF5, CHR 0xF6, CHR 0xF8,
               CHR 0xF9, CHR 0xFA, CHR 0xFB, CHR 0xFC, CHR 0xFD, CHR 0xFE]))"

text \<open>\<^verbatim>\<open>str.title()\<close>: a cased character is lower-cased when the character
  before it is cased, and put in title case otherwise.\<close>

fun title_from :: "bool \<Rightarrow> string \<Rightarrow> string" where
  "title_from previous_is_cased [] = []"
| "title_from previous_is_cased (c # cs) =
     (if previous_is_cased then [lower_char c] else title_str c) @ title_from (iscased c) cs"

definition title :: "string \<Rightarrow> string" where
  "title s = title_from False s"

text \<open>\<^verbatim>\<open>s.split()\<close>: the maximal runs of non-whitespace, in order.  The second
  argument is the word being read, reversed.\<close>

fun split_words :: "string \<Rightarrow> string \<Rightarrow> string list" where
  "split_words [] cur = (if cur = [] then [] else [rev cur])"
| "split_words (c # cs) cur =
     (if isspace c then (if cur = [] then split_words cs [] else rev cur # split_words cs [])
      else split_words cs (c # cur))"

definition split :: "string \<Rightarrow> string list" where
  "split s = split_words s []"

text \<open>\<^verbatim>\<open>s.split(sep)\<close> for a one-character separator: every occurrence cuts,
  empty pieces are kept.\<close>

fun split_at :: "char \<Rightarrow> string \<Rightarrow> string \<Rightarrow> string list" where
  "split_at sep [] cur = [rev cur]"
| "split_at sep (c # cs) cur =
     (if c = sep then rev cur # split_at sep cs [] else split_at sep cs (c # cur))"

definition split_sep :: "char \<Rightarrow> string \<Rightarrow> string list" where
  "split_sep sep s = split_at sep s []"

fun join :: "string \<Rightarrow> string list \<Rightarrow> string" where
  "join sep [] = []"
| "join sep [x] = x"
| "join sep (x # y # ys) = x @ sep @ join sep (y # ys)"

text \<open>Joining a \<^verbatim>\<open>str\<close> iterates over its characters.\<close>

definition chars :: "string \<Rightarrow> string list" where
  "chars s = map (\<lambda>c. [c]) s"

text \<open>\<^verbatim>\<open>"{:<21}".format(s)\<close>: pad on the right to the width, never cut.\<close>

definition ljust :: "nat \<Rightarrow> string \<Rightarrow> string" where
  "ljust w s = s @ replicate (w - length s) CHR '' ''"

text \<open>\<^verbatim>\<open>int(s)\<close> in base 10 (Python 3.11): surrounding whitespace, an optional
  sign, decimal digits with single underscores between digits; anything else is a
  \<^verbatim>\<open>ValueError\<close> (\<open>None\<close>).  The whitespace that \<^verbatim>\<open>int\<close> skips is not that of
  \<^verbatim>\<open>strip\<close>: it leaves out 0x1C-0x1F.  More than 4300 digits are a
  \<^verbatim>\<open>ValueError\<close> too.\<close>

definition int_space :: "char \<Rightarrow> bool" where
  "int_space c = (c \<in> set [CHR 0x09, CHR 0x0A, CHR 0x0B, CHR 0x0C, CHR 0x0D, CHR 0x20,
                            CHR 0x85, CHR 0xA0])"

definition digit_val :: "char \<Rightarrow> nat option" where
  "digit_val c = map_of (zip ''0123456789'' [0 ..< 10]) c"

fun parse_digits :: "string \<Rightarrow> nat \<Rightarrow> nat option" where
  "parse_digits [] acc = Some acc"
| "parse_digits [c] acc =
     (case digit_val c of None \<Rightarrow> None | Some v \<Rightarrow> Some (10 * acc + v))"
| "parse_digits (c # d # ds) acc =
     (if c = CHR ''_'' then
        (case digit_val d of None \<Rightarrow> None | Some v \<Rightarrow> parse_digits ds (10 * acc + v))
      else
        (case digit_val c of None \<Rightarrow> None | Some v \<Rightarrow> parse_digits (d # ds) (10 * acc + v)))"

definition parse_unsigned :: "string \<Rightarrow> nat option" where
  "parse_unsigned s =
     (if length (filter (\<lambda>c. c \<noteq> CHR ''_'') s) > 4300 then None
      else
        (case s of [] \<Rightarrow> None
         | c # cs \<Rightarrow> (case digit_val c of None \<Rightarrow> None | Some v \<Rightarrow> parse_digits cs v)))"

definition py_int :: "string \<Rightarrow> int option" where
  "py_int s =
     (case rev (dropWhile int_space (rev (dropWhile int_space s))) of
        [] \<Rightarrow> None
      | c # cs \<Rightarrow>
          if c = CHR ''-'' then map_option (\<lambda>n. - int n) (parse_unsigned cs)
          else if c = CHR ''+'' then map_option int (parse_unsigned cs)
          else map_option int (parse_unsigned (c # cs)))"

text \<open>\<^verbatim>\<open>word_wrap(text, width=80)\<close>: \<^verbatim>\<open>words[0]\<close> raises \<^verbatim>\<open>IndexError\<close> when
  \<^verbatim>\<open>text.split()\<close> is empty.\<close>

datatype py_error = EOFError | IndexError | IntegrityError | OperationalError

fun wrap_loop :: "nat \<Rightarrow> string list \<Rightarrow> string list \<Rightarrow> string \<Rightarrow> string list" where
  "wrap_loop width [] lines current_line = lines @ [current_line]"
| "wrap_loop width (word # ws) lines current_line =
     (if length current_line + length word + 1 \<le> width
      then wrap_loop width ws lines (current_line @ '' '' @ word)
      else wrap_loop width ws (lines @ [current_line]) word)"

definition word_wrap :: "string \<Rightarrow> py_error + string" where
  "word_wrap text =
     (case split text of
        [] \<Rightarrow> Inl IndexError
      | w # ws \<Rightarrow> Inr (join [CHR 0x0A] (wrap_loop 80 ws [] w)))"

subsection \<open>SQLite database files and connections\<close>

text \<open>A database file is absent, or present with its table missing (\<open>File None\<close>,
  as right after \<^verbatim>\<open>sqlite3.connect\<close> created it) or holding the committed rows in
  insertion order.\<close>

datatype 'r dbfile = Absent | File "'r list option"

definition path_exists :: "'r dbfile \<Rightarrow> bool" where
  "path_exists f = (f \<noteq> Absent)"

definition connect :: "'r dbfile \<Rightarrow> 'r dbfile" where
  "connect f = (case f of Absent \<Rightarrow> File None | File t \<Rightarrow> File t)"

definition create_table :: "'r dbfile \<Rightarrow> 'r dbfile" where
  "create_table f = (case f of File (Some t) \<Rightarrow> File (Some t) | _ \<Rightarrow> File (Some []))"

definition committed :: "'r dbfile \<Rightarrow> 'r list option" where
  "committed f = (case f of Absent \<Rightarrow> None | File t \<Rightarrow> t)"

definition stored :: "'r dbfile \<Rightarrow> 'r list" where
  "stored f = (case committed f of None \<Rightarrow> [] | Some t \<Rightarrow> t)"

text \<open>A connection is its open transaction: \<open>None\<close> when there is none, otherwise
  the table as changed so far.  It reads its own changes, and the committed rows
  when it has none.\<close>

definition table_view :: "'r dbfile \<Rightarrow> 'r list option \<Rightarrow> 'r list option" where
  "table_view f txn = (case txn of Some t \<Rightarrow> Some t | None \<Rightarrow> committed f)"

definition commit :: "'r dbfile \<Rightarrow> 'r list option \<Rightarrow> 'r dbfile" where
  "commit f txn = (case txn of Some t \<Rightarrow> File (Some t) | None \<Rightarrow> f)"

text \<open>INSERT into a table whose first column is \<^verbatim>\<open>TEXT PRIMARY KEY\<close>.\<close>

definition insert_row :: "('r \<Rightarrow> string) \<Rightarrow> 'r \<Rightarrow> 'r list \<Rightarrow> py_error + 'r list" where
  "insert_row key r t = (if key r \<in> set (map key t) then Inl IntegrityError else Inr (t @ [r]))"

type_synonym course_row = "string \<times> string \<times> string \<times> string \<times> string"
type_synonym user_row = "string \<times> string"

text \<open>\<^verbatim>\<open>SELECT id, title FROM courses ORDER BY id\<close>\<close>

definition select_id_title :: "course_row list \<Rightarrow> (string \<times> string) list" where
  "select_id_title t = sort_key fst (map (\<lambda>(course_id, course_title, rest). (course_id, course_title)) t)"

subsection \<open>Loading the CSV files\<close>

datatype 'a loaded = Done 'a | Invalid_format | Raised py_error

definition course_of_row :: "string list \<Rightarrow> course_row" where
  "course_of_row row =
     (let prerequisites = (if length row > 4 then split (row ! 4) else chars ''None'')
      in (row ! 0, row ! 1, row ! 2, row ! 3, join '', '' prerequisites))"

fun insert_courses :: "string list list \<Rightarrow> course_row list \<Rightarrow> course_row list loaded" where
  "insert_courses [] t = Done t"
| "insert_courses (row # reader) t =
     (if length row \<ge> 4 then
        (case insert_row fst (course_of_row row) t of
           Inl e \<Rightarrow> Raised e
         | Inr t' \<Rightarrow> insert_courses reader t')
      else Invalid_format)"

text \<open>\<^verbatim>\<open>load_course_data\<close> works on a connection of its own: it creates the table
  if need be, and, when the CSV file opens, deletes all rows, inserts the file's
  rows and commits; a short row rolls back.  The result is the returned boolean or
  the exception raised, the file afterwards, and the lines printed.  The script
  calls it only while its own connection \<^verbatim>\<open>conn_courses\<close> has no transaction open.\<close>

definition load_course_data ::
  "course_row dbfile \<Rightarrow> string list list option \<Rightarrow> (py_error + bool) \<times> course_row dbfile \<times> string list" where
  "load_course_data db csv_file =
     (let db1 = create_table (connect db) in
      case csv_file of
        None \<Rightarrow> (Inr False, db1, [''Error: The course data file 'courselist.csv' is unavailable.''])
      | Some reader \<Rightarrow>
          (case insert_courses reader [] of
             Done t \<Rightarrow> (Inr True, File (Some t), [])
           | Invalid_format \<Rightarrow> (Inr False, db1, [''Error: Invalid data format in the CSV file.''])
           | Raised e \<Rightarrow> (Inl e, db1, [])))"

fun insert_users :: "string list list \<Rightarrow> user_row list option \<Rightarrow> user_row list option loaded" where
  "insert_users [] t = Done t"
| "insert_users (row # reader) t =
     (if length row \<ge> 2 then
        (case t of
           None \<Rightarrow> Raised OperationalError
         | Some us \<Rightarrow>
             (case insert_row fst (lower (strip (row ! 0)), row ! 1) us of
                Inl e \<Rightarrow> Raised e
              | Inr us' \<Rightarrow> insert_users reader (Some us')))
      else Invalid_format)"

definition load_user_data ::
  "user_row dbfile \<Rightarrow> string list list option \<Rightarrow> (py_error + bool) \<times> user_row dbfile \<times> string list" where
  "load_user_data db csv_file =
     (let db1 = (if \<not> path_exists db then create_table (connect db) else db) in
      case csv_file of
        None \<Rightarrow> (Inr False, db1, [''Error: The user data file 'userlist.csv' is unavailable.''])
      | Some reader \<Rightarrow>
          (case insert_users reader (committed db1) of
             Done t \<Rightarrow> (Inr True, (case t of None \<Rightarrow> db1 | Some us \<Rightarrow> File (Some us)), [])
           | Invalid_format \<Rightarrow> (Inr False, db1, [''Error: Invalid data format in the CSV file.''])
           | Raised e \<Rightarrow> (Inl e, db1, [])))"

subsection \<open>The state of a run\<close>

text \<open>The files the script touches, the two connections and the three variables of
  \<^verbatim>\<open>__main__\<close>, and the log of printed lines.\<close>

record files =
  course_database :: "course_row dbfile"
  user_database :: "user_row dbfile"
  courselist_csv :: "string list list option"
  userlist_csv :: "string list list option"

record state = files +
  conn_courses :: "course_row list option"
  conn_users :: "user_row list option"
  data_loaded :: bool
  user_authenticated :: bool
  user_choice :: "string option"
  printed :: "string list"

definition print :: "string \<Rightarrow> state \<Rightarrow> state" where
  "print line st = st\<lparr>printed := printed st @ [line]\<rparr>"

definition prints :: "string list \<Rightarrow> state \<Rightarrow> state" where
  "prints ls st = st\<lparr>printed := printed st @ ls\<rparr>"

text \<open>What the statement just run did to the control flow: go on, leave the menu
  loop, or raise an exception that no handler of the script catches.\<close>

datatype flow = Next | Break | Raise py_error

definition courses_view :: "state \<Rightarrow> course_row list option" where
  "courses_view st = table_view (course_database st) (conn_courses st)"

definition users_view :: "state \<Rightarrow> user_row list option" where
  "users_view st = table_view (user_database st) (conn_users st)"

subsection \<open>login\<close>

text \<open>The loop of \<^verbatim>\<open>login\<close> returns only \<^verbatim>\<open>True\<close>; it ends otherwise by
  \<^verbatim>\<open>EOFError\<close> when the input runs out.\<close>

fun login :: "state \<Rightarrow> string list \<Rightarrow> (py_error + bool) \<times> state \<times> string list" where
  "login st (u # p # ins) =
     (let username = lower (strip u); password = p in
      if username = ''admin'' \<and> password = ''admin'' then
        (Inr True, print ''Login successful.'' st, ins)
      else
        (case users_view st of
           None \<Rightarrow> (Inl OperationalError, st, ins)
         | Some users \<Rightarrow>
             (case find (\<lambda>(n, pw). n = username \<and> pw = password) users of
                Some user \<Rightarrow> (Inr True, print ''Login successful.'' st, ins)
              | None \<Rightarrow> login (print ''Login failed. Please try again.'' st) ins)))"
| "login st [u] = (Inl EOFError, st, [])"
| "login st [] = (Inl EOFError, st, [])"

subsection \<open>Course operations\<close>

definition add_course :: "state \<Rightarrow> string list \<Rightarrow> flow \<times> state \<times> string list" where
  "add_course st ins =
     (if data_loaded st then
        (case ins of
           i1 # i2 # i3 # i4 # i5 # rest \<Rightarrow>
             (let course_id = upper (strip i1);
                  course_title = title i2;
                  course_credits = i3;
                  course_description = i4;
                  prerequisites = (if i5 = [] then ''None'' else i5);
                  prerequisites = filter (\<lambda>p. p \<noteq> []) (map strip (split_sep CHR '' '' prerequisites))
              in
                case courses_view st of
                  None \<Rightarrow> (Raise OperationalError, st, rest)
                | Some t \<Rightarrow>
                    (case find (\<lambda>r. fst r = course_id) t of
                       Some existing_course \<Rightarrow>
                         (let st1 = print (''Course with the same ID '' @ [CHR 0x27] @ course_id @ [CHR 0x27] @ '' already exists.'') st in
                          case rest of
                            [] \<Rightarrow> (Raise EOFError, st1, [])
                          | c # rest' \<Rightarrow>
                              if lower (strip c) = ''y'' then
                                (Next,
                                 print (''Course '' @ [CHR 0x27] @ course_id @ [CHR 0x27] @ '' replaced successfully.'')
                                   (st1\<lparr>conn_courses := Some (map (\<lambda>r. if fst r = course_id
                                          then (course_id, course_title, course_credits, course_description, join '', '' prerequisites)
                                          else r) t)\<rparr>),
                                 rest')
                              else (Next, print ''Course not replaced.'' st1, rest'))
                     | None \<Rightarrow>
                         (case insert_row fst (course_id, course_title, course_credits, course_description, join '', '' prerequisites) t of
                            Inl e \<Rightarrow> (Raise e, st, rest)
                          | Inr t' \<Rightarrow>
                              (Next, print ''Course added successfully.'' (st\<lparr>conn_courses := Some t'\<rparr>), rest))))
         | _ \<Rightarrow> (Raise EOFError, st, []))
      else
        (Next, print ''Course data is not loaded. Please choose option 1 to load data.'' st, ins))"

text \<open>\<^verbatim>\<open>str(i)\<close> for the numbers of the list printed by \<^verbatim>\<open>delete_course\<close>.\<close>

fun str_nat :: "nat \<Rightarrow> string" where
  "str_nat n =
     (if n < 10 then [''0123456789'' ! n]
      else str_nat (n div 10) @ [''0123456789'' ! (n mod 10)])"

definition delete_course :: "state \<Rightarrow> string list \<Rightarrow> flow \<times> state \<times> string list" where
  "delete_course st ins =
     (if data_loaded st then
        (case courses_view st of
           None \<Rightarrow> (Raise OperationalError, st, ins)
         | Some t \<Rightarrow>
             (let courses = select_id_title t in
              if length courses = 0 then (Next, print ''No courses found.'' st, ins)
              else
                (let st1 = prints (''List of Courses:'' #
                             map (\<lambda>(i, course). str_nat i @ ''. ID: '' @ fst course @ '', Title: '' @ snd course)
                               (zip [1 ..< Suc (length courses)] courses)) st
                 in
                 case ins of
                   [] \<Rightarrow> (Raise EOFError, st1, [])
                 | c # rest \<Rightarrow>
                     (case py_int c of
                        None \<Rightarrow> (Next, print ''Invalid input. Please enter a valid course number.'' st1, rest)
                      | Some choice \<Rightarrow>
                          if 1 \<le> choice \<and> choice \<le> int (length courses) then
                            (let course_id = fst (courses ! (nat choice - 1)) in
                             case rest of
                               [] \<Rightarrow> (Raise EOFError, st1, [])
                             | confirmation # rest' \<Rightarrow>
                                 if lower confirmation = ''y'' then
                                   (Next,
                                    print (''Course '' @ course_id @ '' deleted successfully.'')
                                      (st1\<lparr>conn_courses := Some (filter (\<lambda>r. fst r \<noteq> course_id) t)\<rparr>),
                                    rest')
                                 else (Next, print ''Deletion canceled.'' st1, rest'))
                          else (Next, print ''Invalid choice. Please enter a valid course number.'' st1, rest)))))
      else
        (Next, print ''Course data is not loaded. Please choose option 1 to load data.'' st, ins))"

definition print_course_list :: "state \<Rightarrow> flow \<times> state" where
  "print_course_list st =
     (if data_loaded st then
        (let st1 = print ''List of Courses:'' st in
         case courses_view st of
           None \<Rightarrow> (Raise OperationalError, st1)
         | Some t \<Rightarrow>
             (let courses = select_id_title t in
              if courses = [] then (Next, print ''No courses found.'' st1)
              else (Next, prints (map (\<lambda>course. fst course @ '', '' @ snd course) courses) st1)))
      else
        (Next, print ''Course data is not loaded. Please choose option 1 to load data.'' st))"

definition print_course_details :: "course_row \<Rightarrow> state \<Rightarrow> flow \<times> state" where
  "print_course_details course st =
     (case course of (course_id, course_title, credits, description, prerequisites) \<Rightarrow>
        (let st1 = prints [''Course Details:'', ''ID: '' @ course_id, ''Title: '' @ course_title,
                           ''Credits: '' @ credits, ''Description: ''] st
         in
         case word_wrap description of
           Inl e \<Rightarrow> (Raise e, st1)
         | Inr wrapped_description \<Rightarrow>
             (let st2 = print wrapped_description st1 in
              if lower prerequisites = ''none'' then (Next, print ''Prerequisites: None'' st2)
              else (Next, print (''Prerequisites: '' @ prerequisites) st2))))"

subsection \<open>User management\<close>

definition list_users :: "state \<Rightarrow> flow \<times> state" where
  "list_users st =
     (case users_view st of
        None \<Rightarrow> (Raise OperationalError, st)
      | Some t \<Rightarrow>
          (let users = sort_key fst t;
               rule = ''+---------------------+---------------------+''
           in
           (Next,
            prints ([rule, ''|'' @ ljust 21 ''Username'' @ ''|'' @ ljust 21 ''Password'' @ ''|'', rule]
                    @ map (\<lambda>user. ''|'' @ ljust 21 (fst user) @ ''|''
                                   @ ljust 21 (replicate (length (snd user)) CHR ''*'') @ ''|'') users
                    @ [rule]) st)))"

definition add_user :: "state \<Rightarrow> string list \<Rightarrow> flow \<times> state \<times> string list" where
  "add_user st ins =
     (case ins of
        u # p # rest \<Rightarrow>
          (let username = lower (strip u); password = p in
           case users_view st of
             None \<Rightarrow> (Raise OperationalError, st, rest)
           | Some t \<Rightarrow>
               (case find (\<lambda>r. fst r = username) t of
                  Some existing_user \<Rightarrow>
                    (let st1 = print ''Error: Username already exists.'' st in
                     (Next, st1\<lparr>user_database := commit (user_database st1) (conn_users st1),
                                 conn_users := None\<rparr>, rest))
                | None \<Rightarrow>
                    (case insert_row fst (username, password) t of
                       Inl e \<Rightarrow> (Raise e, st, rest)
                     | Inr t' \<Rightarrow>
                         (let st1 = print (''User '' @ username @ '' added successfully.'')
                                      (st\<lparr>conn_users := Some t'\<rparr>) in
                          (Next, st1\<lparr>user_database := commit (user_database st1) (conn_users st1),
                                      conn_users := None\<rparr>, rest)))))
      | _ \<Rightarrow> (Raise EOFError, st, []))"

definition delete_user :: "state \<Rightarrow> string list \<Rightarrow> flow \<times> state \<times> string list" where
  "delete_user st ins =
     (case ins of
        [] \<Rightarrow> (Raise EOFError, st, [])
      | u # rest \<Rightarrow>
          (let username = lower (strip u) in
           if username = ''admin'' then (Next, print ''Error: Cannot delete admin.'' st, rest)
           else
             (case users_view st of
                None \<Rightarrow> (Raise OperationalError, st, rest)
              | Some t \<Rightarrow>
                  (let st1 =
                     (case find (\<lambda>r. fst r = username) t of
                        Some existing_user \<Rightarrow>
                          print (''User '' @ username @ '' deleted successfully.'')
                            (st\<lparr>conn_users := Some (filter (\<lambda>r. fst r \<noteq> username) t)\<rparr>)
                      | None \<Rightarrow> print ''Error: User not found in the database.'' st)
                   in
                   (Next, st1\<lparr>user_database := commit (user_database st1) (conn_users st1),
                               conn_users := None\<rparr>, rest)))))"

subsection \<open>The user management menu (lines 430-443)\<close>

lemma add_user_input: "add_user st ins = (f, st', ins') \<Longrightarrow> length ins' \<le> length ins"
  by (auto simp: add_user_def Let_def split: list.splits option.splits sum.splits)

lemma delete_user_input: "delete_user st ins = (f, st', ins') \<Longrightarrow> length ins' \<le> length ins"
  by (auto simp: delete_user_def Let_def split: list.splits option.splits if_splits)

function user_management :: "state \<Rightarrow> string list \<Rightarrow> flow \<times> state \<times> string list" where
  "user_management st [] = (Raise EOFError, st, [])"
| "user_management st (i # ins) =
     (let user_option = upper (strip i) in
      if user_option = ''A'' then
        (case list_users st of
           (f, st') \<Rightarrow> if f = Next then user_management st' ins else (f, st', ins))
      else if user_option = ''B'' then
        (case add_user st ins of
           (f, st', ins') \<Rightarrow> if f = Next then user_management st' ins' else (f, st', ins'))
      else if user_option = ''C'' then
        (case delete_user st ins of
           (f, st', ins') \<Rightarrow> if f = Next then user_management st' ins' else (f, st', ins'))
      else if user_option = ''R'' then
        (Next, st\<lparr>user_authenticated := False\<rparr>, ins)
      else
        user_management (print ''Invalid option. Please select a valid user management option.'' st) ins)"
  by pat_completeness auto
termination
  by (relation "measure (\<lambda>(st, ins). length ins)")
     (auto simp: less_Suc_eq_le dest: add_user_input[OF sym] delete_user_input[OF sym])

subsection \<open>The main menu (lines 350-448)\<close>

definition not_loaded :: string where
  "not_loaded = ''Course data is not loaded. Please choose option 1 to load data.''"

text \<open>\<^verbatim>\<open>data_loaded = load_course_data(cursor_courses)\<close>, followed by the message
  printed on success.\<close>

definition call_load_course_data :: "string \<Rightarrow> state \<Rightarrow> flow \<times> state" where
  "call_load_course_data success st =
     (case load_course_data (course_database st) (courselist_csv st) of
        (Inl e, db, ls) \<Rightarrow> (Raise e, prints ls (st\<lparr>course_database := db\<rparr>))
      | (Inr b, db, ls) \<Rightarrow>
          (let st1 = prints ls (st\<lparr>course_database := db, data_loaded := b\<rparr>)
           in (Next, if b then print success st1 else st1)))"

text \<open>Option 1.  Were \<^verbatim>\<open>conn_courses\<close> inside a transaction, the DELETE of
  \<^verbatim>\<open>load_course_data\<close>, on its other connection, would find the database locked.\<close>

definition option_1 :: "state \<Rightarrow> string list \<Rightarrow> flow \<times> state \<times> string list" where
  "option_1 st ins =
     (if \<not> data_loaded st \<or> user_choice st = Some ''1'' then
        (if conn_courses st \<noteq> None \<and> courselist_csv st \<noteq> None then (Raise OperationalError, st, ins)
         else (case call_load_course_data ''Course data loaded successfully.'' st of
                 (f, st') \<Rightarrow> (f, st', ins)))
      else (Next, print ''Course data is already loaded.'' st, ins))"

definition option_2 :: "state \<Rightarrow> string list \<Rightarrow> flow \<times> state \<times> string list" where
  "option_2 st ins =
     (if data_loaded st then (case print_course_list st of (f, st') \<Rightarrow> (f, st', ins))
      else (Next, print not_loaded st, ins))"

definition option_3 :: "state \<Rightarrow> string list \<Rightarrow> flow \<times> state \<times> string list" where
  "option_3 st ins =
     (if data_loaded st then
        (case ins of
           [] \<Rightarrow> (Raise EOFError, st, [])
         | i # rest \<Rightarrow>
             (let course_id = upper (strip i) in
              case courses_view st of
                None \<Rightarrow> (Raise OperationalError, st, rest)
              | Some t \<Rightarrow>
                  (case find (\<lambda>r. fst r = course_id) t of
                     Some course \<Rightarrow> (case print_course_details course st of (f, st') \<Rightarrow> (f, st', rest))
                   | None \<Rightarrow> (Next, print (''Course '' @ course_id @ '' not found.'') st, rest))))
      else (Next, print not_loaded st, ins))"

text \<open>Option 0: the only \<^verbatim>\<open>conn_courses.commit()\<close> of the script.\<close>

definition option_0 :: "state \<Rightarrow> string list \<Rightarrow> flow \<times> state \<times> string list" where
  "option_0 st ins =
     (case ins of
        [] \<Rightarrow> (Raise EOFError, st, [])
      | i # rest \<Rightarrow>
          (let save_changes = lower (strip i);
               st1 = (if save_changes = ''y'' then
                        print ''Changes saved successfully.''
                          (st\<lparr>course_database := commit (course_database st) (conn_courses st),
                              conn_courses := None\<rparr>)
                      else st)
           in (Break, print ''Thank You For Using The Course Planner.'' st1, rest)))"

text \<open>Option 6 after the login gate: on \<^verbatim>\<open>y\<close> the connection is closed, the file
  removed, a new connection made and the CSV file loaded.\<close>

definition reset_course_list :: "state \<Rightarrow> string list \<Rightarrow> flow \<times> state \<times> string list" where
  "reset_course_list st ins =
     (case ins of
        [] \<Rightarrow> (Raise EOFError, st, [])
      | i # rest \<Rightarrow>
          (let reset_confirmation = lower (strip i) in
           if reset_confirmation = ''y'' then
             (case call_load_course_data ''Database reset. Default data structure loaded.''
                     (st\<lparr>conn_courses := None, course_database := connect Absent\<rparr>) of
                (f, st') \<Rightarrow> (f, st', rest))
           else if reset_confirmation \<noteq> ''n'' then
             (Next, print ''Invalid choice. Please enter 'Y' to confirm reset or 'N' to cancel.'' st, rest)
           else (Next, st, rest)))"

text \<open>Options 4, 5 and 6: the dispatch of lines 402-420, and before it the login
  gate of lines 391-401.  A \<^verbatim>\<open>False\<close> from \<^verbatim>\<open>login\<close> would print and
  \<^verbatim>\<open>continue\<close>.\<close>

definition perform_456 :: "string \<Rightarrow> state \<Rightarrow> string list \<Rightarrow> flow \<times> state \<times> string list" where
  "perform_456 option st ins =
     (if option = ''4'' then add_course st ins
      else if option = ''5'' then delete_course st ins
      else if option = ''6'' then reset_course_list st ins
      else (Next, print ''Login required.'' st, ins))"

definition option_456 :: "string \<Rightarrow> state \<Rightarrow> string list \<Rightarrow> flow \<times> state \<times> string list" where
  "option_456 option st ins =
     (let st1 = (if user_authenticated st \<or> user_choice st = Some option
                 then st\<lparr>user_choice := Some option\<rparr> else st)
      in
      if \<not> user_authenticated st1 then
        (case login (print ''Login required.'' st1) ins of
           (r, st2, ins2) \<Rightarrow>
             (case r of
                Inl e \<Rightarrow> (Raise e, st2, ins2)
              | Inr b \<Rightarrow>
                  if b then
                    perform_456 option (print ''User authenticated.'' (st2\<lparr>user_authenticated := b\<rparr>)) ins2
                  else
                    (Next, print ''Login failed. Please try again.'' (st2\<lparr>user_authenticated := b\<rparr>), ins2)))
      else perform_456 option st1 ins)"

definition option_star :: "state \<Rightarrow> string list \<Rightarrow> flow \<times> state \<times> string list" where
  "option_star st ins =
     (let admin_username = ''admin'';
          admin_password = ''admin'';
          st1 = print ''Only an administrator can login for user management.'' st
      in
      case ins of
        u # p # rest \<Rightarrow>
          (let admin_login_username = lower (strip u); admin_login_password = p in
           if admin_login_username = admin_username \<and> admin_login_password = admin_password then
             user_management (st1\<lparr>user_choice := Some ''*'', user_authenticated := True\<rparr>) rest
           else (Next, print ''Invalid admin credentials. Access denied.'' st1, rest))
      | _ \<Rightarrow> (Raise EOFError, st1, []))"

definition main_step :: "state \<Rightarrow> string \<Rightarrow> string list \<Rightarrow> flow \<times> state \<times> string list" where
  "main_step st option ins =
     (if option \<notin> set [''0'', ''1'', ''2'', ''3'', ''4'', ''5'', ''6'', ''*''] then
        (Next, print ''Invalid option. Please enter a valid menu option.'' st, ins)
      else if option = ''1'' then option_1 st ins
      else if option = ''2'' then option_2 st ins
      else if option = ''3'' then option_3 st ins
      else if option = ''0'' then option_0 st ins
      else if option \<in> set [''4'', ''5'', ''6''] then option_456 option st ins
      else if option = ''*'' then option_star st ins
      else (Next, st, ins))"

text \<open>No statement gives input back: what is left to read never grows.\<close>

lemma login_input: "login st ins = (r, st', ins') \<Longrightarrow> length ins' \<le> length ins"
proof (induction st ins arbitrary: r st' ins' rule: login.induct)
  case (1 st u p ins)
  show ?case
  proof (cases "lower (strip u) = ''admin'' \<and> p = ''admin''")
    case True
    with 1(2) show ?thesis by (simp add: Let_def)
  next
    case False
    note nadm = this
    show ?thesis
    proof (cases "users_view st")
      case None
      with 1(2) nadm show ?thesis by (auto simp add: Let_def)
    next
      case (Some users)
      show ?thesis
      proof (cases "find (\<lambda>(n, pw). n = lower (strip u) \<and> pw = p) users")
        case None
        with 1(2) nadm Some
        have "login (print ''Login failed. Please try again.'' st) ins = (r, st', ins')"
          by (auto simp add: Let_def)
        from 1(1)[OF refl refl nadm Some None this] show ?thesis by simp
      next
        case (Some user)
        with 1(2) nadm \<open>users_view st = Some users\<close> show ?thesis by (auto simp add: Let_def)
      qed
    qed
  qed
qed auto

lemma add_course_input: "add_course st ins = (f, st', ins') \<Longrightarrow> length ins' \<le> length ins"
  unfolding add_course_def Let_def
  by (auto split: if_splits list.splits option.splits sum.splits)

lemma delete_course_input: "delete_course st ins = (f, st', ins') \<Longrightarrow> length ins' \<le> length ins"
  unfolding delete_course_def Let_def
  by (auto split: if_splits list.splits option.splits)

lemma reset_course_list_input:
  "reset_course_list st ins = (f, st', ins') \<Longrightarrow> length ins' \<le> length ins"
  by (auto simp: reset_course_list_def Let_def split: if_splits list.splits prod.splits)

lemma user_management_input:
  "user_management st ins = (f, st', ins') \<Longrightarrow> length ins' \<le> length ins"
proof (induction st ins arbitrary: f st' ins' rule: user_management.induct)
  case (1 st)
  then show ?case by simp
next
  case (2 st i ins)
  show ?case
  proof (cases "upper (strip i) = ''A''")
    case True
    with 2 show ?thesis
      by (auto simp: Let_def split: prod.splits if_splits) fastforce
  next
    case nA: False
    show ?thesis
    proof (cases "upper (strip i) = ''B''")
      case True
      obtain g s1 i1 where a: "add_user st ins = (g, s1, i1)" by (cases "add_user st ins") auto
      from add_user_input[OF a] have le: "length i1 \<le> length ins" .
      show ?thesis
      proof (cases "g = Next")
        case True
        with 2 nA \<open>upper (strip i) = ''B''\<close> a le show ?thesis
          by (fastforce simp: Let_def)
      next
        case False
        with 2 nA \<open>upper (strip i) = ''B''\<close> a le show ?thesis
          by (auto simp: Let_def)
      qed
    next
      case nB: False
      show ?thesis
      proof (cases "upper (strip i) = ''C''")
        case True
        obtain g s1 i1 where a: "delete_user st ins = (g, s1, i1)" by (cases "delete_user st ins") auto
        from delete_user_input[OF a] have le: "length i1 \<le> length ins" .
        show ?thesis
        proof (cases "g = Next")
          case True
          with 2 nA nB \<open>upper (strip i) = ''C''\<close> a le show ?thesis
            by (fastforce simp: Let_def)
        next
          case False
          with 2 nA nB \<open>upper (strip i) = ''C''\<close> a le show ?thesis
            by (auto simp: Let_def)
        qed
      next
        case nC: False
        with 2 nA nB show ?thesis
          by (auto simp: Let_def split: if_splits) fastforce
      qed
    qed
  qed
qed


lemma perform_456_input:
  "perform_456 option st ins = (f, st', ins') \<Longrightarrow> length ins' \<le> length ins"
  unfolding perform_456_def
  by (auto split: if_splits dest: add_course_input delete_course_input reset_course_list_input)

lemma option_456_input:
  assumes "option_456 option st ins = (f, st', ins')"
  shows "length ins' \<le> length ins"
proof -
  define st1 where "st1 = (if user_authenticated st \<or> user_choice st = Some option
                 then st\<lparr>user_choice := Some option\<rparr> else st)"
  show ?thesis
  proof (cases "user_authenticated st1")
    case True
    with assms have "perform_456 option st1 ins = (f, st', ins')"
      unfolding option_456_def Let_def st1_def by simp
    then show ?thesis by (rule perform_456_input)
  next
    case False
    obtain r s2 i2 where l: "login (print ''Login required.'' st1) ins = (r, s2, i2)"
      by (cases "login (print ''Login required.'' st1) ins") auto
    from login_input[OF l] have le: "length i2 \<le> length ins" .
    from assms False l have *:
      "(case r of Inl e \<Rightarrow> (Raise e, s2, i2)
        | Inr b \<Rightarrow> if b then perform_456 option (print ''User authenticated.'' (s2\<lparr>user_authenticated := b\<rparr>)) i2
             else (Next, print ''Login failed. Please try again.'' (s2\<lparr>user_authenticated := b\<rparr>), i2))
       = (f, st', ins')"
      unfolding option_456_def Let_def st1_def by (simp del: login.simps)
    show ?thesis
    proof (cases r)
      case (Inl e)
      with * le show ?thesis by simp
    next
      case (Inr b)
      show ?thesis
      proof (cases b)
        case True
        with * Inr have "perform_456 option (print ''User authenticated.'' (s2\<lparr>user_authenticated := True\<rparr>)) i2 = (f, st', ins')"
          by simp
        from perform_456_input[OF this] le show ?thesis by simp
      next
        case False
        with * Inr le show ?thesis by simp
      qed
    qed
  qed
qed

lemma option_star_input:
  "option_star st ins = (f, st', ins') \<Longrightarrow> length ins' \<le> length ins"
  unfolding option_star_def Let_def
  by (auto split: if_splits list.splits dest!: user_management_input)


lemma option_1_input: "option_1 st ins = (f, st', ins') \<Longrightarrow> length ins' \<le> length ins"
  unfolding option_1_def by (auto split: if_splits prod.splits)

lemma option_2_input: "option_2 st ins = (f, st', ins') \<Longrightarrow> length ins' \<le> length ins"
  unfolding option_2_def by (auto split: if_splits prod.splits)

lemma option_3_input: "option_3 st ins = (f, st', ins') \<Longrightarrow> length ins' \<le> length ins"
  unfolding option_3_def Let_def
  by (auto split: if_splits list.splits option.splits prod.splits)

lemma option_0_input: "option_0 st ins = (f, st', ins') \<Longrightarrow> length ins' \<le> length ins"
  unfolding option_0_def Let_def by (auto split: list.splits)

lemma main_step_input:
  assumes "main_step st option ins = (f, st', ins')"
  shows "length ins' \<le> length ins"
proof -
  consider "main_step st option ins = (Next, print ''Invalid option. Please enter a valid menu option.'' st, ins)"
    | "main_step st option ins = option_1 st ins"
    | "main_step st option ins = option_2 st ins"
    | "main_step st option ins = option_3 st ins"
    | "main_step st option ins = option_0 st ins"
    | "main_step st option ins = option_456 option st ins"
    | "main_step st option ins = option_star st ins"
    | "main_step st option ins = (Next, st, ins)"
    unfolding main_step_def by presburger
  then show ?thesis
    using assms
    by cases (auto dest: option_1_input option_2_input option_3_input option_0_input
                         option_456_input option_star_input)
qed

subsection \<open>The run of the script\<close>

text \<open>The menu loop.  It ends with \<open>Break\<close> (option 0) or with the exception that
  ended the process.\<close>

function main_loop :: "state \<Rightarrow> string list \<Rightarrow> flow \<times> state" where
  "main_loop st [] = (Raise EOFError, st)"
| "main_loop st (option # ins) =
     (case main_step st option ins of
        (f, st', ins') \<Rightarrow> if f = Next then main_loop st' ins' else (f, st'))"
  by pat_completeness auto
termination
  by (relation "measure (\<lambda>(st, ins). length ins)")
     (auto simp: less_Suc_eq_le dest: main_step_input[OF sym])

text \<open>Lines 330-348.  \<^verbatim>\<open>os.path.exists("user_database.db")\<close> is asked after
  \<^verbatim>\<open>sqlite3.connect\<close> has made the file.\<close>

definition startup :: "files \<Rightarrow> flow \<times> state" where
  "startup fs =
     (let st = \<lparr>course_database = connect (course_database fs),
                user_database = create_table (connect (user_database fs)),
                courselist_csv = courselist_csv fs,
                userlist_csv = userlist_csv fs,
                conn_courses = None, conn_users = None,
                data_loaded = False, user_authenticated = False, user_choice = None,
                printed = []\<rparr>
      in
      if \<not> path_exists (user_database st) then
        (case load_user_data (user_database st) (userlist_csv st) of
           (Inl e, db, ls) \<Rightarrow> (Raise e, prints ls (st\<lparr>user_database := db\<rparr>))
         | (Inr b, db, ls) \<Rightarrow> (Next, prints ls (st\<lparr>user_database := db, data_loaded := b\<rparr>)))
      else (Next, st\<lparr>data_loaded := True\<rparr>))"

text \<open>Closing the connections (lines 450-451), or the end of the process, drops
  what was not committed.\<close>

definition close_connections :: "state \<Rightarrow> state" where
  "close_connections st = st\<lparr>conn_courses := None, conn_users := None\<rparr>"

definition program :: "files \<Rightarrow> string list \<Rightarrow> flow \<times> state" where
  "program fs ins =
     (case startup fs of
        (f, st) \<Rightarrow>
          if f = Next then (case main_loop st ins of (f', st') \<Rightarrow> (f', close_connections st'))
          else (f, close_connections st))"


subsection \<open>Example files and states\<close>

text \<open>A small installation, used where a property is run on concrete input:
  two stored courses (one with a blank description), one stored user, and a CSV
  file of one row whose fifth field is empty.\<close>

definition example_files :: files where
  "example_files =
     \<lparr>course_database = File (Some [(''CS100'', ''Intro'', ''3'', ''Desc'', ''None''),
                                     (''CS050'', ''Blank'', ''1'', ''  '', ''None'')]),
      user_database = File (Some [(''bob'', ''pw'')]),
      courselist_csv = Some [[''CS101'', ''Intro to CS'', ''3'', ''Basics of programming'', '''']],
      userlist_csv = None\<rparr>"

definition example_state :: state where
  "example_state =
     \<lparr>course_database = File (Some [(''CS100'', ''Intro'', ''3'', ''Desc'', ''None''),
                                     (''CS050'', ''Blank'', ''1'', ''  '', ''None'')]),
      user_database = File (Some [(''bob'', ''pw'')]),
      courselist_csv = Some [[''CS101'', ''Intro to CS'', ''3'', ''Basics of programming'', '''']],
      userlist_csv = None,
      conn_courses = None, conn_users = None,
      data_loaded = True, user_authenticated = False, user_choice = None,
      printed = []\<rparr>"

definition empty_store_state :: state where
  "empty_store_state = example_state\<lparr>user_database := File (Some [])\<rparr>"

definition authenticated_state :: state where
  "authenticated_state = example_state\<lparr>user_authenticated := True\<rparr>"

definition pending_state :: state where
  "pending_state =
     example_state\<lparr>conn_courses := Some [(''CS100'', ''Intro'', ''3'', ''Desc'', ''None'')]\<rparr>"


section \<open>Properties\<close>

lemmas db_defs = path_exists_def connect_def create_table_def committed_def stored_def
  table_view_def commit_def insert_row_def courses_view_def users_view_def print_def prints_def

lemmas str_defs = strip_def isspace_def lower_def upper_def lower_char_def upper_char_def
  upper_str_def title_str_def title_def iscased_def split_def split_sep_def chars_def

lemma startup_example: "startup example_files = (Next, example_state)"
  by (simp add: startup_def example_files_def example_state_def db_defs)

subsection \<open>Course details (C10)\<close>

lemma split_words_empty: "(split_words s cur = []) = (cur = [] \<and> list_all isspace s)"
  by (induction s arbitrary: cur) auto

lemma split_empty: "(split s = []) = list_all isspace s"
  by (simp add: split_def split_words_empty)

lemma word_wrap_IndexError: "(word_wrap d = Inl IndexError) = list_all isspace d"
  by (auto simp: word_wrap_def split_empty[symmetric] split: list.splits)

lemma word_wrap_raises: "word_wrap d = Inl e \<Longrightarrow> e = IndexError"
  by (auto simp: word_wrap_def split: list.splits)

lemma print_course_details_flow:
  "fst (print_course_details (cid, ct, cr, d, p) st) = (if list_all isspace d then Raise IndexError else Next)"
proof (cases "word_wrap d")
  case (Inl e)
  then have "e = IndexError" by (rule word_wrap_raises)
  with Inl word_wrap_IndexError[of d] show ?thesis
    by (simp add: print_course_details_def Let_def)
next
  case (Inr w)
  with word_wrap_IndexError[of d] show ?thesis
    by (simp add: print_course_details_def Let_def)
qed

text \<open>C10: \<^verbatim>\<open>description.split()\<close> is empty exactly when the description is
  empty or all whitespace (U+0085 and U+00A0 included); exactly then
  \<^verbatim>\<open>print_course_details\<close> raises \<^verbatim>\<open>IndexError\<close> (from \<^verbatim>\<open>words[0]\<close> in
  \<^verbatim>\<open>word_wrap\<close>), and otherwise it returns; raised under option 3, for the course
  that the id typed selects, the error is caught by nothing and ends the menu loop.\<close>

theorem details_raise_IndexError:
  "(split d = []) = list_all isspace d \<and>
   fst (print_course_details (cid, ct, cr, d, p) st)
     = (if list_all isspace d then Raise IndexError else Next) \<and>
   (upper_in_range i \<and> data_loaded st \<and> courses_view st = Some t \<and>
    find (\<lambda>r. fst r = upper (strip i)) t = Some (cid, ct, cr, d, p) \<and> list_all isspace d
    \<longrightarrow> fst (main_loop st (''3'' # i # ins)) = Raise IndexError)"
proof (intro conjI impI)
  show "(split d = []) = list_all isspace d" by (rule split_empty)
  show "fst (print_course_details (cid, ct, cr, d, p) st)
     = (if list_all isspace d then Raise IndexError else Next)"
    by (rule print_course_details_flow)
next
  assume "upper_in_range i \<and> data_loaded st \<and> courses_view st = Some t \<and>
    find (\<lambda>r. fst r = upper (strip i)) t = Some (cid, ct, cr, d, p) \<and> list_all isspace d"
  then have a: "data_loaded st \<and> courses_view st = Some t \<and>
    find (\<lambda>r. fst r = upper (strip i)) t = Some (cid, ct, cr, d, p) \<and> list_all isspace d"
    by blast
  obtain f st' where p: "print_course_details (cid, ct, cr, d, p) st = (f, st')"
    by (cases "print_course_details (cid, ct, cr, d, p) st") auto
  with a print_course_details_flow[of cid ct cr d p st] have f: "f = Raise IndexError" by simp
  from a p have "option_3 st (i # ins) = (f, st', ins)"
    by (simp add: option_3_def Let_def)
  then have "main_step st ''3'' (i # ins) = (Raise IndexError, st', ins)"
    using f by (simp add: main_step_def)
  then show "fst (main_loop st (''3'' # i # ins)) = Raise IndexError"
    by simp
qed

theorem details_raise_IndexError_witness:
  "split ''  '' = [] \<and>
   fst (print_course_details (''CS050'', ''Blank'', ''1'', ''  '', ''None'') example_state) = Raise IndexError \<and>
   fst (main_loop example_state [''3'', ''cs050'', ''0'', ''n'']) = Raise IndexError"
proof -
  have h: "upper_in_range ''cs050'' \<and> data_loaded example_state \<and>
      courses_view example_state = Some [(''CS100'', ''Intro'', ''3'', ''Desc'', ''None''),
                                     (''CS050'', ''Blank'', ''1'', ''  '', ''None'')] \<and>
      find (\<lambda>r. fst r = upper (strip ''cs050'')) [(''CS100'', ''Intro'', ''3'', ''Desc'', ''None''),
                                     (''CS050'', ''Blank'', ''1'', ''  '', ''None'')]
        = Some (''CS050'', ''Blank'', ''1'', ''  '', ''None'') \<and>
      list_all isspace ''  ''"
    by (simp add: example_state_def db_defs str_defs upper_in_range_def)
  have s: "list_all isspace ''  ''" by (simp add: isspace_def)
  from details_raise_IndexError[where d = "''  ''" and cid = "''CS050''" and ct = "''Blank''"
      and cr = "''1''" and p = "''None''" and st = example_state
      and t = "[(''CS100'', ''Intro'', ''3'', ''Desc'', ''None''), (''CS050'', ''Blank'', ''1'', ''  '', ''None'')]"
      and i = "''cs050''" and ins = "[''0'', ''n'']"] h s
  show ?thesis by (simp del: main_loop.simps)
qed

subsection \<open>The master credential (C6)\<close>

text \<open>C6: whatever the users table holds (or whether it exists), \<^verbatim>\<open>login\<close>
  returns \<^verbatim>\<open>True\<close> at once for a username that normalises to \<^verbatim>\<open>admin\<close> with the
  password \<^verbatim>\<open>admin\<close>.\<close>

theorem login_master_credential:
  "lower (strip u) = ''admin'' \<Longrightarrow>
   login st (u # ''admin'' # ins) = (Inr True, print ''Login successful.'' st, ins)"
  by (simp add: Let_def)

theorem login_master_credential_witness:
  "users_view empty_store_state = Some [] \<and>
   login empty_store_state ['' Admin '', ''admin'', ''0'']
     = (Inr True, print ''Login successful.'' empty_store_state, [''0''])"
proof -
  have h: "lower (strip '' Admin '') = ''admin''" by (simp add: str_defs)
  have e: "users_view empty_store_state = Some []"
    by (simp add: empty_store_state_def example_state_def db_defs)
  from login_master_credential[OF h, of empty_store_state "[''0'']"] e show ?thesis
    by (simp del: login.simps)
qed


subsection \<open>Removing a user (C7)\<close>

lemma find_key_None: "(find (\<lambda>r. fst r = k) t = None) = (k \<notin> fst ` set t)"
  by (force simp: find_None_iff)

lemma find_key_Some: "k \<in> fst ` set t \<Longrightarrow> \<exists>r. find (\<lambda>r. fst r = k) t = Some r"
  by (cases "find (\<lambda>r. fst r = k) t") (auto simp: find_key_None)

lemma delete_user_absent:
  assumes "lower (strip u) \<noteq> ''admin''" "users_view st = Some t" "find (\<lambda>r. fst r = lower (strip u)) t = None"
  shows "delete_user st (u # ins) =
        (Next, (print ''Error: User not found in the database.'' st)
                 \<lparr>user_database := commit (user_database st) (conn_users st), conn_users := None\<rparr>, ins)"
  using assms by (simp add: delete_user_def Let_def print_def)

lemma delete_user_present:
  assumes "lower (strip u) \<noteq> ''admin''" "users_view st = Some t" "find (\<lambda>r. fst r = lower (strip u)) t = Some r"
  shows "delete_user st (u # ins) =
        (Next, (print (''User '' @ lower (strip u) @ '' deleted successfully.'') st)
                 \<lparr>user_database := File (Some (filter (\<lambda>r. fst r \<noteq> lower (strip u)) t)),
                  conn_users := None\<rparr>, ins)"
  using assms by (simp add: delete_user_def Let_def print_def commit_def)


lemma view_commit:
  "table_view db txn = Some t \<Longrightarrow> committed (commit db txn) = Some t"
  by (cases txn) (simp_all add: table_view_def commit_def committed_def)

lemma key_not_in_filter: "k \<notin> fst ` set (filter (\<lambda>r. fst r \<noteq> k) t)"
  by (induction t) simp_all

text \<open>C7: \<^verbatim>\<open>delete_user\<close> on a username that normalises to \<^verbatim>\<open>admin\<close> prints
  "Cannot delete admin" and returns with the store as it was, for every state; on a
  username the table does not hold it prints "User not found" and the table is
  the same as before; on any other username of the table it deletes the row and
  commits: the stored table is the old one without that username, and no
  transaction stays open.\<close>

theorem delete_user_cases:
  "(lower (strip u) = ''admin'' \<longrightarrow>
      delete_user st (u # ins) = (Next, print ''Error: Cannot delete admin.'' st, ins)) \<and>
   (lower (strip u) \<noteq> ''admin'' \<and> users_view st = Some t \<and> lower (strip u) \<notin> fst ` set t \<longrightarrow>
      delete_user st (u # ins) =
        (Next, (print ''Error: User not found in the database.'' st)
                 \<lparr>user_database := commit (user_database st) (conn_users st), conn_users := None\<rparr>, ins) \<and>
      committed (commit (user_database st) (conn_users st)) = Some t \<and>
      (conn_users st = None \<longrightarrow> commit (user_database st) (conn_users st) = user_database st)) \<and>
   (lower (strip u) \<noteq> ''admin'' \<and> users_view st = Some t \<and> lower (strip u) \<in> fst ` set t \<longrightarrow>
      delete_user st (u # ins) =
        (Next, (print (''User '' @ lower (strip u) @ '' deleted successfully.'') st)
                 \<lparr>user_database := File (Some (filter (\<lambda>r. fst r \<noteq> lower (strip u)) t)),
                  conn_users := None\<rparr>, ins) \<and>
      lower (strip u) \<notin> fst ` set (filter (\<lambda>r. fst r \<noteq> lower (strip u)) t))"
proof (intro conjI impI)
  assume "lower (strip u) = ''admin''"
  then show "delete_user st (u # ins) = (Next, print ''Error: Cannot delete admin.'' st, ins)"
    by (simp add: delete_user_def Let_def)
next
  assume a: "lower (strip u) \<noteq> ''admin'' \<and> users_view st = Some t \<and> lower (strip u) \<notin> fst ` set t"
  then have n: "lower (strip u) \<noteq> ''admin''" and v: "users_view st = Some t"
    and i: "lower (strip u) \<notin> fst ` set t"
    by blast+
  from i have f: "find (\<lambda>r. fst r = lower (strip u)) t = None"
    by (rule find_key_None[THEN iffD2])
  from n v f show "delete_user st (u # ins) =
        (Next, (print ''Error: User not found in the database.'' st)
                 \<lparr>user_database := commit (user_database st) (conn_users st), conn_users := None\<rparr>, ins)"
    by (rule delete_user_absent)
  from v show "committed (commit (user_database st) (conn_users st)) = Some t"
    unfolding users_view_def by (rule view_commit)
  show "conn_users st = None \<Longrightarrow> commit (user_database st) (conn_users st) = user_database st"
    by (simp add: commit_def)
next
  assume a: "lower (strip u) \<noteq> ''admin'' \<and> users_view st = Some t \<and> lower (strip u) \<in> fst ` set t"
  then have n: "lower (strip u) \<noteq> ''admin''" and v: "users_view st = Some t"
    and i: "lower (strip u) \<in> fst ` set t"
    by blast+
  from find_key_Some[OF i] obtain r where "find (\<lambda>r. fst r = lower (strip u)) t = Some r" ..
  with n v show "delete_user st (u # ins) =
        (Next, (print (''User '' @ lower (strip u) @ '' deleted successfully.'') st)
                 \<lparr>user_database := File (Some (filter (\<lambda>r. fst r \<noteq> lower (strip u)) t)),
                  conn_users := None\<rparr>, ins)"
    by (rule delete_user_present)
  show "lower (strip u) \<notin> fst ` set (filter (\<lambda>r. fst r \<noteq> lower (strip u)) t)"
    by (rule key_not_in_filter)
qed

theorem delete_user_cases_witness:
  "delete_user example_state ['' ADMIN'', ''0'']
     = (Next, print ''Error: Cannot delete admin.'' example_state, [''0'']) \<and>
   delete_user example_state [''zed'', ''0'']
     = (Next, (print ''Error: User not found in the database.'' example_state)
                \<lparr>user_database := File (Some [(''bob'', ''pw'')]), conn_users := None\<rparr>, [''0'']) \<and>
   delete_user example_state [''Bob'', ''0'']
     = (Next, (print ''User bob deleted successfully.'' example_state)
                \<lparr>user_database := File (Some []), conn_users := None\<rparr>, [''0''])"
proof -
  have v: "users_view example_state = Some [(''bob'', ''pw'')]"
    by (simp add: example_state_def db_defs)
  have d: "commit (user_database example_state) (conn_users example_state) = File (Some [(''bob'', ''pw'')])"
    by (simp add: example_state_def db_defs)
  have n1: "lower (strip '' ADMIN'') = ''admin''" by (simp add: str_defs)
  have n2: "lower (strip ''zed'') = ''zed''" by (simp add: str_defs)
  have n3: "lower (strip ''Bob'') = ''bob''" by (simp add: str_defs)
  have h2: "lower (strip ''zed'') \<noteq> ''admin'' \<and> users_view example_state = Some [(''bob'', ''pw'')] \<and>
        lower (strip ''zed'') \<notin> fst ` set [(''bob'', ''pw'')]"
    unfolding n2 v by simp
  have h3: "lower (strip ''Bob'') \<noteq> ''admin'' \<and> users_view example_state = Some [(''bob'', ''pw'')] \<and>
        lower (strip ''Bob'') \<in> fst ` set [(''bob'', ''pw'')]"
    unfolding n3 v by simp
  note t = delete_user_cases[where st = example_state and ins = "[''0'']" and t = "[(''bob'', ''pw'')]"]
  have c1: "delete_user example_state ['' ADMIN'', ''0'']
     = (Next, print ''Error: Cannot delete admin.'' example_state, [''0''])"
    by (rule t[where u = "'' ADMIN''", THEN conjunct1, THEN mp, OF n1])
  have c2: "delete_user example_state [''zed'', ''0'']
     = (Next, (print ''Error: User not found in the database.'' example_state)
                \<lparr>user_database := File (Some [(''bob'', ''pw'')]), conn_users := None\<rparr>, [''0''])"
    using t[where u = "''zed''", THEN conjunct2, THEN conjunct1, THEN mp, OF h2, THEN conjunct1]
    unfolding d .
  have f: "filter (\<lambda>r. fst r \<noteq> ''bob'') [(''bob'', ''pw'')] = []" by simp
  have c3: "delete_user example_state [''Bob'', ''0'']
     = (Next, (print ''User bob deleted successfully.'' example_state)
                \<lparr>user_database := File (Some []), conn_users := None\<rparr>, [''0''])"
    using t[where u = "''Bob''", THEN conjunct2, THEN conjunct2, THEN mp, OF h3, THEN conjunct1]
    unfolding n3 f by simp
  from c1 c2 c3 show ?thesis by (intro conjI)
qed


subsection \<open>Leaving the user management menu (C8)\<close>

lemma user_management_return:
  "upper (strip i) = ''R'' \<Longrightarrow>
   user_management st (i # ins) = (Next, st\<lparr>user_authenticated := False\<rparr>, ins)"
  by (simp add: Let_def)

lemma user_management_leaves_anonymous:
  "user_management st ins = (f, st', ins') \<Longrightarrow> f = Next \<Longrightarrow> \<not> user_authenticated st'"
proof (induction st ins arbitrary: f st' ins' rule: user_management.induct)
  case (1 st)
  then show ?case by simp
next
  case (2 st i ins)
  let ?o = "upper (strip i)"
  note eq = "2.prems"(1) and fN = "2.prems"(2)
  show ?case
  proof (cases "?o = ''A''")
    case A: True
    obtain g s1 where l: "list_users st = (g, s1)" by (cases "list_users st") auto
    from eq A l have e: "(if g = Next then user_management s1 ins else (g, s1, ins)) = (f, st', ins')"
      by (simp add: Let_def)
    show ?thesis
    proof (cases "g = Next")
      case True
      with e have "user_management s1 ins = (f, st', ins')" by simp
      from "2.IH"(1)[OF refl A l[symmetric] True this fN] show ?thesis .
    next
      case False
      with e fN show ?thesis by simp
    qed
  next
    case nA: False
    show ?thesis
    proof (cases "?o = ''B''")
      case B: True
      obtain g s1 i1 where l: "add_user st ins = (g, s1, i1)" by (cases "add_user st ins") auto
      from eq nA B l have e: "(if g = Next then user_management s1 i1 else (g, s1, i1)) = (f, st', ins')"
        by (simp add: Let_def)
      show ?thesis
      proof (cases "g = Next")
        case True
        with e have "user_management s1 i1 = (f, st', ins')" by simp
        from "2.IH"(2)[OF refl nA B l[symmetric] refl True this fN] show ?thesis .
      next
        case False
        with e fN show ?thesis by simp
      qed
    next
      case nB: False
      show ?thesis
      proof (cases "?o = ''C''")
        case C: True
        obtain g s1 i1 where l: "delete_user st ins = (g, s1, i1)" by (cases "delete_user st ins") auto
        from eq nA nB C l have e: "(if g = Next then user_management s1 i1 else (g, s1, i1)) = (f, st', ins')"
          by (simp add: Let_def)
        show ?thesis
        proof (cases "g = Next")
          case True
          with e have "user_management s1 i1 = (f, st', ins')" by simp
          from "2.IH"(3)[OF refl nA nB C l[symmetric] refl True this fN] show ?thesis .
        next
          case False
          with e fN show ?thesis by simp
        qed
      next
        case nC: False
        show ?thesis
        proof (cases "?o = ''R''")
          case True
          with eq nA nB nC show ?thesis by (auto simp: Let_def)
        next
          case nR: False
          with eq nA nB nC have
            "user_management (print ''Invalid option. Please select a valid user management option.'' st) ins = (f, st', ins')"
            by (simp add: Let_def)
          from "2.IH"(4)[OF refl nA nB nC nR this fN] show ?thesis .
        qed
      qed
    qed
  qed
qed

lemma login_state:
  "login st ins = (r, st', ins') \<Longrightarrow> st' = st\<lparr>printed := printed st'\<rparr>"
proof (induction st ins arbitrary: r st' ins' rule: login.induct)
  case (1 st u p ins)
  show ?case
  proof (cases "lower (strip u) = ''admin'' \<and> p = ''admin''")
    case True
    with 1(2) show ?thesis by (auto simp add: Let_def print_def)
  next
    case False
    note nadm = this
    show ?thesis
    proof (cases "users_view st")
      case None
      with 1(2) nadm show ?thesis by (auto simp add: Let_def)
    next
      case (Some users)
      show ?thesis
      proof (cases "find (\<lambda>(n, pw). n = lower (strip u) \<and> pw = p) users")
        case None
        with 1(2) nadm Some
        have "login (print ''Login failed. Please try again.'' st) ins = (r, st', ins')"
          by (auto simp add: Let_def)
        from 1(1)[OF refl refl nadm Some None this] show ?thesis by (simp add: print_def)
      next
        case (Some user)
        with 1(2) nadm \<open>users_view st = Some users\<close> show ?thesis
          by (auto simp add: Let_def print_def)
      qed
    qed
  qed
qed auto

lemma login_never_False: "login st ins = (r, st', ins') \<Longrightarrow> r \<noteq> Inr False"
proof (induction st ins arbitrary: r st' ins' rule: login.induct)
  case (1 st u p ins)
  show ?case
  proof (cases "lower (strip u) = ''admin'' \<and> p = ''admin''")
    case True
    with 1(2) show ?thesis by (auto simp add: Let_def)
  next
    case False
    note nadm = this
    show ?thesis
    proof (cases "users_view st")
      case None
      with 1(2) nadm show ?thesis by (auto simp add: Let_def)
    next
      case (Some users)
      show ?thesis
      proof (cases "find (\<lambda>(n, pw). n = lower (strip u) \<and> pw = p) users")
        case None
        with 1(2) nadm Some
        have "login (print ''Login failed. Please try again.'' st) ins = (r, st', ins')"
          by (auto simp add: Let_def)
        from 1(1)[OF refl refl nadm Some None this] show ?thesis .
      next
        case (Some user)
        with 1(2) nadm \<open>users_view st = Some users\<close> show ?thesis
          by (auto simp add: Let_def)
      qed
    qed
  qed
qed auto

lemma option_456_anonymous:
  assumes "\<not> user_authenticated st"
  shows "option_456 option st ins =
     (case login (print ''Login required.'' st) ins of
        (r, st2, ins2) \<Rightarrow>
          (case r of
             Inl e \<Rightarrow> (Raise e, st2, ins2)
           | Inr b \<Rightarrow> perform_456 option (print ''User authenticated.'' (st2\<lparr>user_authenticated := True\<rparr>)) ins2))"
proof -
  have st1: "(if user_authenticated st \<or> user_choice st = Some option
              then st\<lparr>user_choice := Some option\<rparr> else st) = st"
    using assms by simp
  obtain r st2 ins2 where l: "login (print ''Login required.'' st) ins = (r, st2, ins2)"
    by (cases "login (print ''Login required.'' st) ins") auto
  from login_never_False[OF l] have nf: "r \<noteq> Inr False" .
  have a: "\<not> user_authenticated st" by (rule assms)
  show ?thesis
  proof (cases r)
    case (Inl e)
    with l a show ?thesis
      unfolding option_456_def Let_def st1 by (simp del: login.simps)
  next
    case (Inr b)
    with nf have "b" by simp
    with Inr l a show ?thesis
      unfolding option_456_def Let_def st1 by (simp del: login.simps)
  qed
qed

text \<open>C8: the choice \<^verbatim>\<open>R\<close> of the user management menu sets
  \<^verbatim>\<open>user_authenticated\<close> to \<^verbatim>\<open>False\<close> and leaves the menu; the menu returns in
  no other way, so whenever option \<^verbatim>\<open>*\<close> comes back after an accepted administrator
  login the session is anonymous, whatever it was before; and in that state options
  4, 5 and 6 run \<^verbatim>\<open>login\<close> first and perform the operation only when it has
  returned \<^verbatim>\<open>True\<close>.\<close>

theorem admin_return_resets_authentication:
  "(upper (strip i) = ''R'' \<longrightarrow>
      user_management st (i # ins) = (Next, st\<lparr>user_authenticated := False\<rparr>, ins)) \<and>
   (user_management st ins = (Next, st', ins') \<longrightarrow> \<not> user_authenticated st') \<and>
   (lower (strip u) = ''admin'' \<and> option_star st (u # ''admin'' # ins) = (Next, st', ins') \<longrightarrow>
      \<not> user_authenticated st' \<and>
      option_456 option st' ins2 =
        (case login (print ''Login required.'' st') ins2 of
           (r, st2, ins3) \<Rightarrow>
             (case r of
                Inl e \<Rightarrow> (Raise e, st2, ins3)
              | Inr b \<Rightarrow> perform_456 option
                           (print ''User authenticated.'' (st2\<lparr>user_authenticated := True\<rparr>)) ins3)))"
proof (intro conjI impI)
  assume "upper (strip i) = ''R''"
  then show "user_management st (i # ins) = (Next, st\<lparr>user_authenticated := False\<rparr>, ins)"
    by (rule user_management_return)
next
  assume "user_management st ins = (Next, st', ins')"
  then show "\<not> user_authenticated st'"
    by (rule user_management_leaves_anonymous) simp
next
  assume a: "lower (strip u) = ''admin'' \<and> option_star st (u # ''admin'' # ins) = (Next, st', ins')"
  then have u: "lower (strip u) = ''admin''"
    and o: "option_star st (u # ''admin'' # ins) = (Next, st', ins')"
    by blast+
  from o have "user_management
       ((print ''Only an administrator can login for user management.'' st)
          \<lparr>user_choice := Some ''*'', user_authenticated := True\<rparr>) ins = (Next, st', ins')"
    unfolding option_star_def Let_def by (simp add: u)
  then show n: "\<not> user_authenticated st'"
    by (rule user_management_leaves_anonymous) simp
  then show "option_456 option st' ins2 =
        (case login (print ''Login required.'' st') ins2 of
           (r, st2, ins3) \<Rightarrow>
             (case r of
                Inl e \<Rightarrow> (Raise e, st2, ins3)
              | Inr b \<Rightarrow> perform_456 option
                           (print ''User authenticated.'' (st2\<lparr>user_authenticated := True\<rparr>)) ins3))"
    by (rule option_456_anonymous)
qed

theorem admin_return_resets_authentication_witness:
  "user_authenticated authenticated_state \<and>
   \<not> user_authenticated (fst (snd (option_star authenticated_state [''admin'', ''admin'', ''r'', ''4'']))) \<and>
   fst (option_456 ''4'' (fst (snd (option_star authenticated_state [''admin'', ''admin'', ''r'', ''4''])))
          [''bob'', ''bad'']) = Raise EOFError"
proof -
  let ?st = "(print ''Only an administrator can login for user management.'' authenticated_state)
               \<lparr>user_choice := Some ''*'', user_authenticated := True, user_authenticated := False\<rparr>"
  have a: "user_authenticated authenticated_state"
    by (simp add: authenticated_state_def)
  have r: "upper (strip ''r'') = ''R''" by (simp add: str_defs)
  have u: "lower (strip ''admin'') = ''admin''" by (simp add: str_defs)
  have o: "option_star authenticated_state [''admin'', ''admin'', ''r'', ''4''] = (Next, ?st, [''4''])"
    using u r by (simp add: option_star_def Let_def)
  note t = admin_return_resets_authentication[where u = "''admin''" and st = authenticated_state
      and ins = "[''r'', ''4'']" and st' = ?st and ins' = "[''4'']" and option = "''4''"
      and ?ins2.0 = "[''bob'', ''bad'']", THEN conjunct2, THEN conjunct2, THEN mp, OF conjI, OF u o]
  have v: "users_view (print ''Login required.'' ?st) = Some [(''bob'', ''pw'')]"
    by (simp add: authenticated_state_def example_state_def db_defs)
  have n: "lower (strip ''bob'') = ''bob''" by (simp add: str_defs)
  have l: "login (print ''Login required.'' ?st) [''bob'', ''bad'']
        = (Inl EOFError, print ''Login failed. Please try again.'' (print ''Login required.'' ?st), [])"
    using v n by (simp add: Let_def)
  from t have "\<not> user_authenticated ?st" by (rule conjunct1)
  moreover from t[THEN conjunct2] have "fst (option_456 ''4'' ?st [''bob'', ''bad'']) = Raise EOFError"
    unfolding l by simp
  ultimately show ?thesis using a unfolding o by simp
qed

subsection \<open>Loading the course file (C2, C4)\<close>

lemma fst_course_of_row: "fst (course_of_row row) = row ! 0"
  by (simp add: course_of_row_def Let_def)

lemma insert_courses_valid:
  "\<forall>row\<in>set S. 4 \<le> length row \<Longrightarrow> distinct (map fst t @ map (\<lambda>row. row ! 0) S) \<Longrightarrow>
   insert_courses S t = Done (t @ map course_of_row S)"
proof (induction S arbitrary: t)
  case Nil
  then show ?case by simp
next
  case (Cons row S)
  from Cons.prems have len: "4 \<le> length row" and rest: "\<forall>row\<in>set S. 4 \<le> length row" by simp_all
  from Cons.prems(2) have new: "row ! 0 \<notin> set (map fst t)"
    and d: "distinct (map fst (t @ [course_of_row row]) @ map (\<lambda>row. row ! 0) S)"
    by (auto simp: fst_course_of_row)
  from new have "insert_row fst (course_of_row row) t = Inr (t @ [course_of_row row])"
    by (simp add: insert_row_def fst_course_of_row)
  with len have "insert_courses (row # S) t = insert_courses S (t @ [course_of_row row])" by simp
  also from Cons.IH[OF rest d] have "\<dots> = Done ((t @ [course_of_row row]) @ map course_of_row S)" .
  finally show ?case by simp
qed

lemma insert_courses_short:
  "\<exists>row\<in>set S. length row < 4 \<Longrightarrow> distinct (map fst t) \<Longrightarrow>
   insert_courses S t =
     (if distinct (map fst t @ map (\<lambda>row. row ! 0) (takeWhile (\<lambda>row. 4 \<le> length row) S))
      then Invalid_format else Raised IntegrityError)"
proof (induction S arbitrary: t)
  case Nil
  then show ?case by simp
next
  case (Cons row S)
  show ?case
  proof (cases "4 \<le> length row")
    case False
    with Cons.prems(2) show ?thesis by simp
  next
    case len: True
    with Cons.prems(1) have short: "\<exists>row\<in>set S. length row < 4" by auto
    show ?thesis
    proof (cases "row ! 0 \<in> set (map fst t)")
      case True
      then have "insert_row fst (course_of_row row) t = Inl IntegrityError"
        by (simp add: insert_row_def fst_course_of_row)
      with len True show ?thesis by auto
    next
      case new: False
      then have i: "insert_row fst (course_of_row row) t = Inr (t @ [course_of_row row])"
        by (simp add: insert_row_def fst_course_of_row)
      from new Cons.prems(2) have d: "distinct (map fst (t @ [course_of_row row]))"
        by (simp add: fst_course_of_row)
      from len i have "insert_courses (row # S) t = insert_courses S (t @ [course_of_row row])" by simp
      also note Cons.IH[OF short d]
      finally show ?thesis using len by (simp add: fst_course_of_row)
    qed
  qed
qed

lemma stored_create_table: "stored (create_table (connect db)) = stored db"
  by (cases db) (auto simp: stored_def create_table_def connect_def committed_def split: option.splits)

lemma create_table_existing: "committed db \<noteq> None \<Longrightarrow> create_table (connect db) = db"
  by (cases db) (auto simp: create_table_def connect_def committed_def split: option.splits)

text \<open>C2: when some row of the CSV file has fewer than four fields,
  \<^verbatim>\<open>load_course_data\<close> does not succeed, whatever the database held: it
  prints the format error, rolls back and returns \<^verbatim>\<open>False\<close> when the ids of the
  rows before the first short row are pairwise distinct, and otherwise the second
  INSERT of an id raises \<^verbatim>\<open>IntegrityError\<close> to the caller before the short row
  is reached.  Either way nothing is committed: the stored rows are the rows stored
  before, and a table that existed is the same table.\<close>

theorem load_course_data_malformed:
  "\<exists>row\<in>set S. length row < 4 \<Longrightarrow>
   load_course_data db (Some S) =
     (if distinct (map (\<lambda>row. row ! 0) (takeWhile (\<lambda>row. 4 \<le> length row) S))
      then (Inr False, create_table (connect db), [''Error: Invalid data format in the CSV file.''])
      else (Inl IntegrityError, create_table (connect db), [])) \<and>
   fst (load_course_data db (Some S)) \<noteq> Inr True \<and>
   stored (fst (snd (load_course_data db (Some S)))) = stored db \<and>
   (committed db \<noteq> None \<longrightarrow> fst (snd (load_course_data db (Some S))) = db)"
proof -
  assume "\<exists>row\<in>set S. length row < 4"
  from insert_courses_short[OF this, of "[]"]
  have i: "insert_courses S [] =
     (if distinct (map (\<lambda>row. row ! 0) (takeWhile (\<lambda>row. 4 \<le> length row) S))
      then Invalid_format else Raised IntegrityError)"
    by simp
  have e: "load_course_data db (Some S) =
     (if distinct (map (\<lambda>row. row ! 0) (takeWhile (\<lambda>row. 4 \<le> length row) S))
      then (Inr False, create_table (connect db), [''Error: Invalid data format in the CSV file.''])
      else (Inl IntegrityError, create_table (connect db), []))"
    by (simp add: load_course_data_def Let_def i)
  show ?thesis
    unfolding e using stored_create_table[of db] create_table_existing[of db]
    by (simp split: if_splits)
qed

theorem load_course_data_malformed_witness:
  "load_course_data (File (Some [(''CS100'', ''Intro'', ''3'', ''Desc'', ''None'')]))
      (Some [[''CS101'', ''Intro to CS'', ''3'', ''Basics of programming'', ''''], [''CS102'', ''Broken'']])
     = (Inr False, File (Some [(''CS100'', ''Intro'', ''3'', ''Desc'', ''None'')]),
        [''Error: Invalid data format in the CSV file.'']) \<and>
   load_course_data Absent
      (Some [[''CS101'', ''A'', ''3'', ''D''], [''CS101'', ''B'', ''3'', ''D''], []])
     = (Inl IntegrityError, File (Some []), [])"
proof -
  have h1: "\<exists>row\<in>set [[''CS101'', ''Intro to CS'', ''3'', ''Basics of programming'', ''''], [''CS102'', ''Broken'']].
              length row < 4"
    by simp
  have h2: "\<exists>row\<in>set [[''CS101'', ''A'', ''3'', ''D''], [''CS101'', ''B'', ''3'', ''D''], []]. length row < 4"
    by simp
  from load_course_data_malformed[OF h1, of "File (Some [(''CS100'', ''Intro'', ''3'', ''Desc'', ''None'')])", THEN conjunct1]
       load_course_data_malformed[OF h2, of Absent, THEN conjunct1]
  show ?thesis
    by (simp add: create_table_def connect_def)
qed

lemma select_id_title_loaded:
  "select_id_title (map course_of_row S) = sort_key fst (map (\<lambda>row. (row ! 0, row ! 1)) S)"
  by (simp add: select_id_title_def course_of_row_def Let_def comp_def)

lemma distinct_keys_sort_key:
  "distinct (map fst (sort_key fst xs)) = distinct (map fst xs)"
  by (simp add: distinct_map)

text \<open>C4, amended: for a CSV file whose rows all have at least four fields
  \<^emph>\<open>and whose ids are pairwise distinct\<close>, \<^verbatim>\<open>load_course_data\<close> returns
  \<^verbatim>\<open>True\<close> and the table holds exactly the rows of the file, none of an earlier
  load; the query of the course list then yields the (id, title) pairs of exactly
  those rows, ascending by id and without a repeated id.\<close>

theorem load_then_list:
  "\<forall>row\<in>set S. 4 \<le> length row \<Longrightarrow> distinct (map (\<lambda>row. row ! 0) S) \<Longrightarrow>
   load_course_data db (Some S) = (Inr True, File (Some (map course_of_row S)), []) \<and>
   select_id_title (map course_of_row S) = sort_key fst (map (\<lambda>row. (row ! 0, row ! 1)) S) \<and>
   set (select_id_title (map course_of_row S)) = (\<lambda>row. (row ! 0, row ! 1)) ` set S \<and>
   sorted (map fst (select_id_title (map course_of_row S))) \<and>
   distinct (map fst (select_id_title (map course_of_row S)))"
proof -
  assume len: "\<forall>row\<in>set S. 4 \<le> length row" and d: "distinct (map (\<lambda>row. row ! 0) S)"
  from d have "distinct (map fst [] @ map (\<lambda>row. row ! 0) S)" by simp
  from insert_courses_valid[OF len this]
  have l: "load_course_data db (Some S) = (Inr True, File (Some (map course_of_row S)), [])"
    by (simp add: load_course_data_def Let_def)
  have m: "map fst (map (\<lambda>row. (row ! 0, row ! 1)) S) = map (\<lambda>row. row ! 0) S"
    by (simp add: comp_def)
  have "distinct (map fst (select_id_title (map course_of_row S)))"
    unfolding select_id_title_loaded distinct_keys_sort_key m by (rule d)
  moreover have "sorted (map fst (select_id_title (map course_of_row S)))"
    unfolding select_id_title_loaded by (rule sorted_sort_key)
  moreover have "set (select_id_title (map course_of_row S)) = (\<lambda>row. (row ! 0, row ! 1)) ` set S"
    unfolding select_id_title_loaded by simp
  ultimately show ?thesis
    using l select_id_title_loaded[of S] by blast
qed

theorem load_then_list_witness:
  "load_course_data (File (Some [(''CS100'', ''Intro'', ''3'', ''Desc'', ''None'')]))
      (Some [[''CS300'', ''Third'', ''3'', ''D3'', ''CS100 CS200''], [''CS200'', ''Second'', ''3'', ''D2'', ''CS100'']])
     = (Inr True, File (Some [(''CS300'', ''Third'', ''3'', ''D3'', ''CS100, CS200''),
                              (''CS200'', ''Second'', ''3'', ''D2'', ''CS100'')]), []) \<and>
   select_id_title [(''CS300'', ''Third'', ''3'', ''D3'', ''CS100, CS200''),
                    (''CS200'', ''Second'', ''3'', ''D2'', ''CS100'')]
     = [(''CS200'', ''Second''), (''CS300'', ''Third'')]"
proof -
  let ?S = "[[''CS300'', ''Third'', ''3'', ''D3'', ''CS100 CS200''], [''CS200'', ''Second'', ''3'', ''D2'', ''CS100'']]"
  have h1: "\<forall>row\<in>set ?S. 4 \<le> length row" by simp
  have h2: "distinct (map (\<lambda>row. row ! 0) ?S)" by simp
  have c: "map course_of_row ?S = [(''CS300'', ''Third'', ''3'', ''D3'', ''CS100, CS200''),
                              (''CS200'', ''Second'', ''3'', ''D2'', ''CS100'')]"
    by (simp add: course_of_row_def Let_def split_def isspace_def)
  have s: "sort_key fst (map (\<lambda>row. (row ! 0, row ! 1)) ?S) = [(''CS200'', ''Second''), (''CS300'', ''Third'')]"
    by simp
  from load_then_list[OF h1 h2, of "File (Some [(''CS100'', ''Intro'', ''3'', ''Desc'', ''None'')])"]
  show ?thesis unfolding c s by blast
qed

text \<open>C4 as stated fails: every row of this file has four fields, but the id
  \<^verbatim>\<open>CS101\<close> comes twice; the second INSERT violates the primary key, the load
  raises \<^verbatim>\<open>IntegrityError\<close> and the table keeps the row of the earlier load.\<close>

theorem load_duplicate_ids_counterexample:
  "list_all (\<lambda>row. 4 \<le> length row) [[''CS101'', ''A'', ''3'', ''D''], [''CS101'', ''B'', ''3'', ''D'']] \<and>
   load_course_data (File (Some [(''CS100'', ''Intro'', ''3'', ''Desc'', ''None'')]))
      (Some [[''CS101'', ''A'', ''3'', ''D''], [''CS101'', ''B'', ''3'', ''D'']])
     = (Inl IntegrityError, File (Some [(''CS100'', ''Intro'', ''3'', ''Desc'', ''None'')]), [])"
  by (simp add: load_course_data_def course_of_row_def insert_row_def create_table_def connect_def
                chars_def Let_def)

subsection \<open>Prerequisites of loaded rows (C5) and the loaded flag (C3)\<close>

text \<open>C5, on the code: a row with four fields gets the prerequisites
  \<^verbatim>\<open>', '.join("None")\<close>, the characters of the marker joined, and its details end
  with "Prerequisites: N, o, n, e"; a row whose fifth field is empty gets the empty
  string and its details end with "Prerequisites: ".  Neither is displayed as
  "Prerequisites: None", which is what \<^verbatim>\<open>print_course_details\<close> tests for and
  what a course entered through \<^verbatim>\<open>add_course\<close> with no prerequisites gets.\<close>

theorem prerequisites_stored_by_load:
  "load_course_data Absent (Some [[''CS101'', ''Intro to CS'', ''3'', ''Basics of programming'']])
     = (Inr True, File (Some [(''CS101'', ''Intro to CS'', ''3'', ''Basics of programming'', ''N, o, n, e'')]), []) \<and>
   print_course_details (''CS101'', ''Intro to CS'', ''3'', ''Basics of programming'', ''N, o, n, e'') example_state
     = (Next, prints [''Course Details:'', ''ID: CS101'', ''Title: Intro to CS'', ''Credits: 3'',
                      ''Description: '', ''Basics of programming'', ''Prerequisites: N, o, n, e''] example_state) \<and>
   load_course_data Absent (Some [[''CS101'', ''Intro to CS'', ''3'', ''Basics of programming'', '''']])
     = (Inr True, File (Some [(''CS101'', ''Intro to CS'', ''3'', ''Basics of programming'', '''')]), []) \<and>
   print_course_details (''CS101'', ''Intro to CS'', ''3'', ''Basics of programming'', '''') example_state
     = (Next, prints [''Course Details:'', ''ID: CS101'', ''Title: Intro to CS'', ''Credits: 3'',
                      ''Description: '', ''Basics of programming'', ''Prerequisites: ''] example_state) \<and>
   conn_courses (fst (snd (add_course example_state
        [''cs101'', ''intro to cs'', ''3'', ''Basics of programming'', ''''])))
     = Some [(''CS100'', ''Intro'', ''3'', ''Desc'', ''None''), (''CS050'', ''Blank'', ''1'', ''  '', ''None''),
             (''CS101'', ''Intro To Cs'', ''3'', ''Basics of programming'', ''None'')] \<and>
   print_course_details (''CS101'', ''Intro To Cs'', ''3'', ''Basics of programming'', ''None'') example_state
     = (Next, prints [''Course Details:'', ''ID: CS101'', ''Title: Intro To Cs'', ''Credits: 3'',
                      ''Description: '', ''Basics of programming'', ''Prerequisites: None''] example_state)"
proof (intro conjI)
  show "load_course_data Absent (Some [[''CS101'', ''Intro to CS'', ''3'', ''Basics of programming'']])
     = (Inr True, File (Some [(''CS101'', ''Intro to CS'', ''3'', ''Basics of programming'', ''N, o, n, e'')]), [])"
    by (simp add: load_course_data_def course_of_row_def insert_row_def chars_def Let_def)
  show "load_course_data Absent (Some [[''CS101'', ''Intro to CS'', ''3'', ''Basics of programming'', '''']])
     = (Inr True, File (Some [(''CS101'', ''Intro to CS'', ''3'', ''Basics of programming'', '''')]), [])"
    by (simp add: load_course_data_def course_of_row_def insert_row_def split_def Let_def)
  have w: "word_wrap ''Basics of programming'' = Inr ''Basics of programming''"
    by (simp add: word_wrap_def split_def isspace_def)
  show "print_course_details (''CS101'', ''Intro to CS'', ''3'', ''Basics of programming'', ''N, o, n, e'') example_state
     = (Next, prints [''Course Details:'', ''ID: CS101'', ''Title: Intro to CS'', ''Credits: 3'',
                      ''Description: '', ''Basics of programming'', ''Prerequisites: N, o, n, e''] example_state)"
    by (simp add: print_course_details_def w Let_def print_def prints_def lower_def lower_char_def)
  show "print_course_details (''CS101'', ''Intro to CS'', ''3'', ''Basics of programming'', '''') example_state
     = (Next, prints [''Course Details:'', ''ID: CS101'', ''Title: Intro to CS'', ''Credits: 3'',
                      ''Description: '', ''Basics of programming'', ''Prerequisites: ''] example_state)"
    by (simp add: print_course_details_def w Let_def print_def prints_def lower_def lower_char_def)
  show "print_course_details (''CS101'', ''Intro To Cs'', ''3'', ''Basics of programming'', ''None'') example_state
     = (Next, prints [''Course Details:'', ''ID: CS101'', ''Title: Intro To Cs'', ''Credits: 3'',
                      ''Description: '', ''Basics of programming'', ''Prerequisites: None''] example_state)"
    by (simp add: print_course_details_def w Let_def print_def prints_def lower_def lower_char_def)
  show "conn_courses (fst (snd (add_course example_state
        [''cs101'', ''intro to cs'', ''3'', ''Basics of programming'', ''''])))
     = Some [(''CS100'', ''Intro'', ''3'', ''Desc'', ''None''), (''CS050'', ''Blank'', ''1'', ''  '', ''None''),
             (''CS101'', ''Intro To Cs'', ''3'', ''Basics of programming'', ''None'')]"
    by (simp add: add_course_def example_state_def db_defs str_defs Let_def)
qed





subsection \<open>The login gate of options 4, 5 and 6 (C9)\<close>

lemma find_pair_None:
  "(find (\<lambda>(n, pw). n = u \<and> pw = p) us = None) = ((u, p) \<notin> set us)"
  by (force simp: find_None_iff)

lemma login_rejected:
  assumes "users_view st = Some us" "\<not> (lower (strip u) = ''admin'' \<and> p = ''admin'')"
    "(lower (strip u), p) \<notin> set us"
  shows "login st (u # p # ins) = login (print ''Login failed. Please try again.'' st) ins"
proof -
  from assms(3) have "find (\<lambda>(n, pw). n = lower (strip u) \<and> pw = p) us = None"
    by (rule find_pair_None[THEN iffD2])
  with assms(1,2) show ?thesis by (auto simp: Let_def)
qed

text \<open>C9, amended: \<^verbatim>\<open>login\<close> never returns \<^verbatim>\<open>False\<close>: after a rejected pair it
  prints "Login failed. Please try again." and asks again.  So when option 4, 5 or 6
  is chosen in an anonymous session, either the input ends inside \<^verbatim>\<open>login\<close> and
  the run ends with that exception, nothing having changed but the printed lines,
  or a pair is accepted, \<^verbatim>\<open>user_authenticated\<close> becomes \<^verbatim>\<open>True\<close> and the operation
  chosen is performed on the rest of the input.\<close>

theorem login_gate:
  "fst (login st ins) \<noteq> Inr False \<and>
   (users_view st = Some us \<and> \<not> (lower (strip u) = ''admin'' \<and> p = ''admin'') \<and>
    (lower (strip u), p) \<notin> set us \<longrightarrow>
      login st (u # p # ins) = login (print ''Login failed. Please try again.'' st) ins) \<and>
   (\<not> user_authenticated st \<and> login (print ''Login required.'' st) ins = (Inl e, st2, ins2) \<longrightarrow>
      option_456 option st ins = (Raise e, st2, ins2) \<and> st2 = st\<lparr>printed := printed st2\<rparr>) \<and>
   (\<not> user_authenticated st \<and> login (print ''Login required.'' st) ins = (Inr True, st2, ins2) \<longrightarrow>
      option_456 option st ins =
        perform_456 option (print ''User authenticated.'' (st2\<lparr>user_authenticated := True\<rparr>)) ins2 \<and>
      st2 = st\<lparr>printed := printed st2\<rparr>)"
proof (intro conjI impI)
  obtain r s i where l: "login st ins = (r, s, i)" by (cases "login st ins") auto
  from login_never_False[OF l] l show "fst (login st ins) \<noteq> Inr False" by simp
next
  assume "users_view st = Some us \<and> \<not> (lower (strip u) = ''admin'' \<and> p = ''admin'') \<and>
    (lower (strip u), p) \<notin> set us"
  then have "users_view st = Some us" "\<not> (lower (strip u) = ''admin'' \<and> p = ''admin'')"
    "(lower (strip u), p) \<notin> set us"
    by blast+
  then show "login st (u # p # ins) = login (print ''Login failed. Please try again.'' st) ins"
    by (rule login_rejected)
next
  assume "\<not> user_authenticated st \<and> login (print ''Login required.'' st) ins = (Inl e, st2, ins2)"
  then have a: "\<not> user_authenticated st"
    and l: "login (print ''Login required.'' st) ins = (Inl e, st2, ins2)"
    by blast+
  show "option_456 option st ins = (Raise e, st2, ins2)"
    unfolding option_456_anonymous[OF a] l by simp
  from login_state[OF l] show "st2 = st\<lparr>printed := printed st2\<rparr>"
    by (simp add: print_def)
next
  assume "\<not> user_authenticated st \<and> login (print ''Login required.'' st) ins = (Inr True, st2, ins2)"
  then have a: "\<not> user_authenticated st"
    and l: "login (print ''Login required.'' st) ins = (Inr True, st2, ins2)"
    by blast+
  show "option_456 option st ins =
        perform_456 option (print ''User authenticated.'' (st2\<lparr>user_authenticated := True\<rparr>)) ins2"
    unfolding option_456_anonymous[OF a] l by simp
  from login_state[OF l] show "st2 = st\<lparr>printed := printed st2\<rparr>"
    by (simp add: print_def)
qed

theorem login_gate_witness:
  "option_456 ''4'' example_state [''bob'', ''bad'']
     = (Raise EOFError, prints [''Login required.'', ''Login failed. Please try again.''] example_state, []) \<and>
   option_456 ''5'' example_state [''Bob '', ''pw'', ''x'']
     = perform_456 ''5''
         (print ''User authenticated.''
            ((prints [''Login required.'', ''Login successful.''] example_state)\<lparr>user_authenticated := True\<rparr>))
         [''x'']"
proof -
  have a: "\<not> user_authenticated example_state" by (simp add: example_state_def)
  have v: "users_view (print ''Login required.'' example_state) = Some [(''bob'', ''pw'')]"
    by (simp add: example_state_def db_defs)
  have n1: "lower (strip ''bob'') = ''bob''" and n2: "lower (strip ''Bob '') = ''bob''"
    by (simp_all add: str_defs)
  have l1: "login (print ''Login required.'' example_state) [''bob'', ''bad'']
      = (Inl EOFError, prints [''Login required.'', ''Login failed. Please try again.''] example_state, [])"
    using v n1 by (simp add: Let_def print_def prints_def)
  have l2: "login (print ''Login required.'' example_state) [''Bob '', ''pw'', ''x'']
      = (Inr True, prints [''Login required.'', ''Login successful.''] example_state, [''x''])"
    using v n2 by (simp add: Let_def print_def prints_def)
  from login_gate[where st = example_state and option = "''4''", THEN conjunct2, THEN conjunct2,
         THEN conjunct1, THEN mp, OF conjI, OF a l1, THEN conjunct1]
       login_gate[where st = example_state and option = "''5''", THEN conjunct2, THEN conjunct2,
         THEN conjunct2, THEN mp, OF conjI, OF a l2, THEN conjunct1]
  show ?thesis by (intro conjI)
qed

text \<open>C9 as stated fails: after the rejected pair bob/bad control does not come back
  to the menu, where \<^verbatim>\<open>0\<close> and \<^verbatim>\<open>n\<close> would leave the program; the two lines are read
  as the next username and password, and the run ends with \<^verbatim>\<open>EOFError\<close>.  Nor is the
  operation given up: with an accepted pair next, the course is added under the same
  menu choice.\<close>

theorem failed_login_counterexample:
  "option_456 ''4'' example_state [''bob'', ''bad'', ''0'', ''n'']
     = (Raise EOFError,
        prints [''Login required.'', ''Login failed. Please try again.'',
                ''Login failed. Please try again.''] example_state, []) \<and>
   program example_files [''4'', ''bob'', ''bad'', ''0'', ''n'']
     = (Raise EOFError,
        prints [''Login required.'', ''Login failed. Please try again.'',
                ''Login failed. Please try again.''] example_state) \<and>
   conn_courses (fst (snd (option_456 ''4'' example_state
        [''bob'', ''bad'', ''bob'', ''pw'', ''cs999'', ''new course'', ''3'', ''A description'', ''''])))
     = Some [(''CS100'', ''Intro'', ''3'', ''Desc'', ''None''), (''CS050'', ''Blank'', ''1'', ''  '', ''None''),
             (''CS999'', ''New Course'', ''3'', ''A description'', ''None'')]"
proof (intro conjI)
  show "option_456 ''4'' example_state [''bob'', ''bad'', ''0'', ''n'']
     = (Raise EOFError,
        prints [''Login required.'', ''Login failed. Please try again.'',
                ''Login failed. Please try again.''] example_state, [])"
    by (simp add: option_456_def example_state_def db_defs str_defs Let_def)
  show "program example_files [''4'', ''bob'', ''bad'', ''0'', ''n'']
     = (Raise EOFError,
        prints [''Login required.'', ''Login failed. Please try again.'',
                ''Login failed. Please try again.''] example_state)"
    by (simp add: program_def startup_example main_step_def option_456_def close_connections_def
                  example_state_def db_defs str_defs Let_def)
  show "conn_courses (fst (snd (option_456 ''4'' example_state
        [''bob'', ''bad'', ''bob'', ''pw'', ''cs999'', ''new course'', ''3'', ''A description'', ''''])))
     = Some [(''CS100'', ''Intro'', ''3'', ''Desc'', ''None''), (''CS050'', ''Blank'', ''1'', ''  '', ''None''),
             (''CS999'', ''New Course'', ''3'', ''A description'', ''None'')]"
    by (simp add: option_456_def perform_456_def add_course_def example_state_def db_defs str_defs Let_def)
qed

subsection \<open>Commits and the exit prompt (C1)\<close>

lemma add_course_database:
  "course_database (fst (snd (add_course st ins))) = course_database st"
  unfolding add_course_def Let_def print_def
  by (simp split: list.split option.split sum.split)

lemma delete_course_database:
  "course_database (fst (snd (delete_course st ins))) = course_database st"
  unfolding delete_course_def Let_def print_def prints_def
  by (simp split: list.split option.split)

lemma add_user_absent:
  assumes "users_view st = Some us" "lower (strip u) \<notin> fst ` set us"
  shows "add_user st (u # p # ins) =
     (Next, (print (''User '' @ lower (strip u) @ '' added successfully.'') st)
              \<lparr>user_database := File (Some (us @ [(lower (strip u), p)])), conn_users := None\<rparr>, ins)"
proof -
  from assms(2) have f: "find (\<lambda>r. fst r = lower (strip u)) us = None"
    by (rule find_key_None[THEN iffD2])
  from assms(2) have i: "insert_row fst (lower (strip u), p) us = Inr (us @ [(lower (strip u), p)])"
    by (simp add: insert_row_def)
  show ?thesis
    unfolding add_user_def Let_def by (simp add: assms(1) f i print_def commit_def)
qed

lemma reset_course_list_loaded:
  assumes "lower (strip i) = ''y''" "courselist_csv st = Some S"
    "\<forall>row\<in>set S. 4 \<le> length row" "distinct (map (\<lambda>row. row ! 0) S)"
  shows "reset_course_list st (i # ins) =
     (Next, print ''Database reset. Default data structure loaded.''
              (prints [] (st\<lparr>conn_courses := None, course_database := File (Some (map course_of_row S)),
                             data_loaded := True\<rparr>)), ins)"
proof -
  from assms(4) have "distinct (map fst [] @ map (\<lambda>row. row ! 0) S)" by simp
  from insert_courses_valid[OF assms(3) this]
  have l: "load_course_data db (Some S) = (Inr True, File (Some (map course_of_row S)), [])" for db
    by (simp add: load_course_data_def Let_def)
  show ?thesis
    unfolding reset_course_list_def Let_def call_load_course_data_def
    by (simp add: assms(1,2) l)
qed

lemma option_0_exit:
  "option_0 st (a # ins) =
     (Break, print ''Thank You For Using The Course Planner.''
        (if lower (strip a) = ''y'' then
           print ''Changes saved successfully.''
             (st\<lparr>course_database := commit (course_database st) (conn_courses st), conn_courses := None\<rparr>)
         else st), ins)"
  by (simp add: option_0_def Let_def)

lemma add_course_fresh:
  assumes "data_loaded st" "courses_view st = Some t" "upper (strip i1) \<notin> fst ` set t"
  shows "add_course st (i1 # i2 # i3 # i4 # i5 # ins) =
     (Next, print ''Course added successfully.''
        (st\<lparr>conn_courses := Some (t @ [(upper (strip i1), title i2, i3, i4,
            join '', '' (filter (\<lambda>p. p \<noteq> [])
              (map strip (split_sep CHR '' '' (if i5 = [] then ''None'' else i5)))))])\<rparr>), ins)"
proof -
  from assms(3) have f: "find (\<lambda>r. fst r = upper (strip i1)) t = None"
    by (rule find_key_None[THEN iffD2])
  from assms(3) have i: "insert_row fst (upper (strip i1), x) t = Inr (t @ [(upper (strip i1), x)])" for x
    by (simp add: insert_row_def)
  show ?thesis
    unfolding add_course_def Let_def by (simp add: assms(1,2) f i del: split_paired_All)
qed

lemma add_course_replace:
  assumes "data_loaded st" "courses_view st = Some t" "upper (strip i1) \<in> fst ` set t"
    "lower (strip c) = ''y''"
  shows "conn_courses (fst (snd (add_course st (i1 # i2 # i3 # i4 # i5 # c # ins)))) =
     Some (map (\<lambda>r. if fst r = upper (strip i1)
                     then (upper (strip i1), title i2, i3, i4,
                           join '', '' (filter (\<lambda>p. p \<noteq> [])
                             (map strip (split_sep CHR '' '' (if i5 = [] then ''None'' else i5)))))
                     else r) t)"
proof -
  from find_key_Some[OF assms(3)] obtain r where f: "find (\<lambda>r. fst r = upper (strip i1)) t = Some r" ..
  show ?thesis
    unfolding add_course_def Let_def by (simp add: assms(1,2,4) f print_def)
qed

lemma add_course_declined:
  assumes "data_loaded st" "courses_view st = Some t" "upper (strip i1) \<in> fst ` set t"
    "lower (strip c) \<noteq> ''y''"
  shows "conn_courses (fst (snd (add_course st (i1 # i2 # i3 # i4 # i5 # c # ins)))) = conn_courses st"
proof -
  from find_key_Some[OF assms(3)] obtain r where f: "find (\<lambda>r. fst r = upper (strip i1)) t = Some r" ..
  have c: "(lower (strip c) = ''y'') = False" using assms(4) by blast
  show ?thesis
    unfolding add_course_def Let_def by (simp add: assms(1,2) f c print_def)
qed

lemma length_select_id_title: "length (select_id_title t) = length t"
  by (simp add: select_id_title_def)

lemma delete_course_confirmed:
  assumes "data_loaded st" "courses_view st = Some t" "py_int c = Some n" "1 \<le> n"
    "n \<le> int (length t)" "lower conf = ''y''"
  shows "conn_courses (fst (snd (delete_course st (c # conf # ins)))) =
     Some (filter (\<lambda>r. fst r \<noteq> fst (select_id_title t ! (nat n - 1))) t)"
proof -
  from assms(4,5) have "t \<noteq> []" by auto
  then have l: "length (select_id_title t) \<noteq> 0"
    by (simp add: length_select_id_title)
  from assms(4,5) have r: "1 \<le> n \<and> n \<le> int (length (select_id_title t))"
    by (simp add: length_select_id_title)
  show ?thesis
    unfolding delete_course_def Let_def
    by (simp add: assms(1,2,3,6) l r print_def prints_def del: length_0_conv)
qed

text \<open>C1, amended: \<^verbatim>\<open>add_user\<close> and \<^verbatim>\<open>delete_user\<close> commit before they return, and so
  does a reset whose load succeeds: the stored table is the changed one and no
  transaction stays open.  \<^verbatim>\<open>add_course\<close> and \<^verbatim>\<open>delete_course\<close> never commit: the
  course added, the course replaced on \<^verbatim>\<open>y\<close> and the deletion confirmed are in
  the open transaction of \<^verbatim>\<open>conn_courses\<close> (a replacement declined leaves it as it
  was), and the stored table is the one from before.  At option 0 the answer decides:
  on \<^verbatim>\<open>y\<close> that transaction is committed, on any other answer the stored table
  stays as it was and the transaction is lost when the connection closes.  (The
  rows named are those of ids and titles whose upper case stays below U+0100.)\<close>

theorem commit_points:
  "(users_view st = Some us \<and> lower (strip u) \<notin> fst ` set us \<longrightarrow>
      user_database (fst (snd (add_user st (u # p # ins)))) = File (Some (us @ [(lower (strip u), p)])) \<and>
      conn_users (fst (snd (add_user st (u # p # ins)))) = None) \<and>
   (lower (strip u) \<noteq> ''admin'' \<and> users_view st = Some us \<and> lower (strip u) \<in> fst ` set us \<longrightarrow>
      user_database (fst (snd (delete_user st (u # ins))))
        = File (Some (filter (\<lambda>r. fst r \<noteq> lower (strip u)) us)) \<and>
      conn_users (fst (snd (delete_user st (u # ins)))) = None) \<and>
   (lower (strip i) = ''y'' \<and> courselist_csv st = Some S \<and> (\<forall>row\<in>set S. 4 \<le> length row) \<and>
    distinct (map (\<lambda>row. row ! 0) S) \<longrightarrow>
      course_database (fst (snd (reset_course_list st (i # ins)))) = File (Some (map course_of_row S)) \<and>
      conn_courses (fst (snd (reset_course_list st (i # ins)))) = None) \<and>
   (upper_in_range i1 \<and> upper_in_range i2 \<and>
    data_loaded st \<and> courses_view st = Some t \<and> upper (strip i1) \<notin> fst ` set t \<longrightarrow>
      conn_courses (fst (snd (add_course st (i1 # i2 # i3 # i4 # i5 # ins))))
        = Some (t @ [(upper (strip i1), title i2, i3, i4,
            join '', '' (filter (\<lambda>p. p \<noteq> [])
              (map strip (split_sep CHR '' '' (if i5 = [] then ''None'' else i5)))))])) \<and>
   (upper_in_range i1 \<and> upper_in_range i2 \<and>
    data_loaded st \<and> courses_view st = Some t \<and> upper (strip i1) \<in> fst ` set t \<and>
    lower (strip c) = ''y'' \<longrightarrow>
      conn_courses (fst (snd (add_course st (i1 # i2 # i3 # i4 # i5 # c # ins))))
        = Some (map (\<lambda>r. if fst r = upper (strip i1)
                         then (upper (strip i1), title i2, i3, i4,
                               join '', '' (filter (\<lambda>p. p \<noteq> [])
                                 (map strip (split_sep CHR '' '' (if i5 = [] then ''None'' else i5)))))
                         else r) t)) \<and>
   (upper_in_range i1 \<and>
    data_loaded st \<and> courses_view st = Some t \<and> upper (strip i1) \<in> fst ` set t \<and>
    lower (strip c) \<noteq> ''y'' \<longrightarrow>
      conn_courses (fst (snd (add_course st (i1 # i2 # i3 # i4 # i5 # c # ins)))) = conn_courses st) \<and>
   (data_loaded st \<and> courses_view st = Some t \<and> py_int k = Some n \<and> 1 \<le> n \<and>
    n \<le> int (length t) \<and> lower conf = ''y'' \<longrightarrow>
      conn_courses (fst (snd (delete_course st (k # conf # ins))))
        = Some (filter (\<lambda>r. fst r \<noteq> fst (select_id_title t ! (nat n - 1))) t)) \<and>
   course_database (fst (snd (add_course st ins))) = course_database st \<and>
   course_database (fst (snd (delete_course st ins))) = course_database st \<and>
   course_database (close_connections (fst (snd (option_0 st (a # ins)))))
     = (if lower (strip a) = ''y'' then commit (course_database st) (conn_courses st)
        else course_database st) \<and>
   conn_courses (close_connections (fst (snd (option_0 st (a # ins))))) = None"
proof (intro conjI impI)
  assume "users_view st = Some us \<and> lower (strip u) \<notin> fst ` set us"
  then have "users_view st = Some us" "lower (strip u) \<notin> fst ` set us" by blast+
  note e = add_user_absent[OF this, of p ins]
  show "user_database (fst (snd (add_user st (u # p # ins)))) = File (Some (us @ [(lower (strip u), p)]))"
    unfolding e by simp
  show "conn_users (fst (snd (add_user st (u # p # ins)))) = None"
    unfolding e by simp
next
  assume "lower (strip u) \<noteq> ''admin'' \<and> users_view st = Some us \<and> lower (strip u) \<in> fst ` set us"
  then have n: "lower (strip u) \<noteq> ''admin''" and v: "users_view st = Some us"
    and i: "lower (strip u) \<in> fst ` set us"
    by blast+
  from find_key_Some[OF i] obtain r where "find (\<lambda>r. fst r = lower (strip u)) us = Some r" ..
  note e = delete_user_present[OF n v this, of ins]
  show "user_database (fst (snd (delete_user st (u # ins))))
        = File (Some (filter (\<lambda>r. fst r \<noteq> lower (strip u)) us))"
    unfolding e by simp
  show "conn_users (fst (snd (delete_user st (u # ins)))) = None"
    unfolding e by simp
next
  assume "lower (strip i) = ''y'' \<and> courselist_csv st = Some S \<and> (\<forall>row\<in>set S. 4 \<le> length row) \<and>
    distinct (map (\<lambda>row. row ! 0) S)"
  then have "lower (strip i) = ''y''" "courselist_csv st = Some S" "\<forall>row\<in>set S. 4 \<le> length row"
    "distinct (map (\<lambda>row. row ! 0) S)"
    by blast+
  note e = reset_course_list_loaded[OF this, of ins]
  show "course_database (fst (snd (reset_course_list st (i # ins)))) = File (Some (map course_of_row S))"
    unfolding e by (simp add: print_def prints_def)
  show "conn_courses (fst (snd (reset_course_list st (i # ins)))) = None"
    unfolding e by (simp add: print_def prints_def)
next
  assume "upper_in_range i1 \<and> upper_in_range i2 \<and>
    data_loaded st \<and> courses_view st = Some t \<and> upper (strip i1) \<notin> fst ` set t"
  then have "data_loaded st" "courses_view st = Some t" "upper (strip i1) \<notin> fst ` set t" by blast+
  note e = add_course_fresh[OF this, of i2 i3 i4 i5 ins]
  show "conn_courses (fst (snd (add_course st (i1 # i2 # i3 # i4 # i5 # ins))))
        = Some (t @ [(upper (strip i1), title i2, i3, i4,
            join '', '' (filter (\<lambda>p. p \<noteq> [])
              (map strip (split_sep CHR '' '' (if i5 = [] then ''None'' else i5)))))])"
    unfolding e by (simp add: print_def)
next
  assume "upper_in_range i1 \<and> upper_in_range i2 \<and>
    data_loaded st \<and> courses_view st = Some t \<and> upper (strip i1) \<in> fst ` set t \<and>
    lower (strip c) = ''y''"
  then have "data_loaded st" "courses_view st = Some t" "upper (strip i1) \<in> fst ` set t"
    "lower (strip c) = ''y''"
    by blast+
  then show "conn_courses (fst (snd (add_course st (i1 # i2 # i3 # i4 # i5 # c # ins))))
        = Some (map (\<lambda>r. if fst r = upper (strip i1)
                         then (upper (strip i1), title i2, i3, i4,
                               join '', '' (filter (\<lambda>p. p \<noteq> [])
                                 (map strip (split_sep CHR '' '' (if i5 = [] then ''None'' else i5)))))
                         else r) t)"
    by (rule add_course_replace)
next
  assume "upper_in_range i1 \<and>
    data_loaded st \<and> courses_view st = Some t \<and> upper (strip i1) \<in> fst ` set t \<and>
    lower (strip c) \<noteq> ''y''"
  then have "data_loaded st" "courses_view st = Some t" "upper (strip i1) \<in> fst ` set t"
    "lower (strip c) \<noteq> ''y''"
    by blast+
  then show "conn_courses (fst (snd (add_course st (i1 # i2 # i3 # i4 # i5 # c # ins)))) = conn_courses st"
    by (rule add_course_declined)
next
  assume "data_loaded st \<and> courses_view st = Some t \<and> py_int k = Some n \<and> 1 \<le> n \<and>
    n \<le> int (length t) \<and> lower conf = ''y''"
  then have "data_loaded st" "courses_view st = Some t" "py_int k = Some n" "1 \<le> n"
    "n \<le> int (length t)" "lower conf = ''y''"
    by blast+
  then show "conn_courses (fst (snd (delete_course st (k # conf # ins))))
        = Some (filter (\<lambda>r. fst r \<noteq> fst (select_id_title t ! (nat n - 1))) t)"
    by (rule delete_course_confirmed)
next
  show "course_database (fst (snd (add_course st ins))) = course_database st"
    by (rule add_course_database)
  show "course_database (fst (snd (delete_course st ins))) = course_database st"
    by (rule delete_course_database)
  show "course_database (close_connections (fst (snd (option_0 st (a # ins)))))
     = (if lower (strip a) = ''y'' then commit (course_database st) (conn_courses st)
        else course_database st)"
    unfolding option_0_exit by (simp add: close_connections_def print_def)
  show "conn_courses (close_connections (fst (snd (option_0 st (a # ins))))) = None"
    by (simp add: close_connections_def)
qed

theorem commit_points_witness:
  "conn_courses (fst (snd (add_course example_state [''cs999'', ''new course'', ''3'', ''A description'', []])))
     = Some [(''CS100'', ''Intro'', ''3'', ''Desc'', ''None''), (''CS050'', ''Blank'', ''1'', ''  '', ''None''),
             (''CS999'', ''New Course'', ''3'', ''A description'', ''None'')] \<and>
   conn_courses (fst (snd (add_course example_state
       [''cs100'', ''new intro'', ''4'', ''New text'', ''CS050'', ''y''])))
     = Some [(''CS100'', ''New Intro'', ''4'', ''New text'', ''CS050''),
             (''CS050'', ''Blank'', ''1'', ''  '', ''None'')] \<and>
   conn_courses (fst (snd (add_course example_state
       [''cs100'', ''new intro'', ''4'', ''New text'', ''CS050'', ''n''])))
     = None \<and>
   conn_courses (fst (snd (delete_course example_state [''1'', ''Y''])))
     = Some [(''CS100'', ''Intro'', ''3'', ''Desc'', ''None'')] \<and>
   course_database (fst (snd (delete_course example_state [''1'', ''Y''])))
     = File (Some [(''CS100'', ''Intro'', ''3'', ''Desc'', ''None''), (''CS050'', ''Blank'', ''1'', ''  '', ''None'')]) \<and>
   user_database (fst (snd (add_user example_state [''Alice'', ''pw1''])))
     = File (Some [(''bob'', ''pw''), (''alice'', ''pw1'')]) \<and>
   user_database (fst (snd (delete_user example_state [''Bob''])))
     = File (Some []) \<and>
   course_database (fst (snd (reset_course_list example_state [''y''])))
     = File (Some [(''CS101'', ''Intro to CS'', ''3'', ''Basics of programming'', [])]) \<and>
   course_database (close_connections (fst (snd (option_0 pending_state [''y'']))))
     = File (Some [(''CS100'', ''Intro'', ''3'', ''Desc'', ''None'')]) \<and>
   course_database (close_connections (fst (snd (option_0 pending_state [''n'']))))
     = File (Some [(''CS100'', ''Intro'', ''3'', ''Desc'', ''None''), (''CS050'', ''Blank'', ''1'', ''  '', ''None'')])"
proof -
  let ?t = "[(''CS100'', ''Intro'', ''3'', ''Desc'', ''None''), (''CS050'', ''Blank'', ''1'', ''  '', ''None'')]"
  let ?S = "[[''CS101'', ''Intro to CS'', ''3'', ''Basics of programming'', []]]"
  have ex: "data_loaded example_state" "courses_view example_state = Some ?t"
    "users_view example_state = Some [(''bob'', ''pw'')]" "courselist_csv example_state = Some ?S"
    "course_database example_state = File (Some ?t)"
    by (simp_all add: example_state_def db_defs)
  have pe: "course_database pending_state = File (Some ?t)"
    "conn_courses pending_state = Some [(''CS100'', ''Intro'', ''3'', ''Desc'', ''None'')]"
    by (simp_all add: pending_state_def example_state_def)
  have n: "upper (strip ''cs999'') = ''CS999''" "upper (strip ''cs100'') = ''CS100''"
    "lower (strip ''Alice'') = ''alice''" "lower (strip ''Bob'') = ''bob''"
    "lower (strip ''y'') = ''y''" "lower (strip ''n'') = ''n''" "lower ''Y'' = ''y''"
    "title ''new course'' = ''New Course''" "title ''new intro'' = ''New Intro''"
    by (simp_all add: str_defs)
  have ur: "upper_in_range ''cs999''" "upper_in_range ''cs100''" "upper_in_range ''new course''"
    "upper_in_range ''new intro''"
    by (simp_all add: upper_in_range_def)
  have pr: "join '', '' (filter (\<lambda>p. p \<noteq> [])
              (map strip (split_sep CHR '' '' (if ([]::string) = [] then ''None'' else [])))) = ''None''"
    "join '', '' (filter (\<lambda>p. p \<noteq> [])
              (map strip (split_sep CHR '' '' (if ''CS050'' = [] then ''None'' else ''CS050'')))) = ''CS050''"
    by (simp_all add: str_defs)
  have k: "py_int ''1'' = Some 1"
    by code_simp
  have sel: "select_id_title ?t = [(''CS050'', ''Blank''), (''CS100'', ''Intro'')]"
    by (simp add: select_id_title_def)
  have csv: "map course_of_row ?S = [(''CS101'', ''Intro to CS'', ''3'', ''Basics of programming'', [])]"
    by (simp add: course_of_row_def Let_def split_def)
  note T = commit_points[where st = example_state and t = ?t and us = "[(''bob'', ''pw'')]" and S = ?S]
  have h4: "upper_in_range ''cs999'' \<and> upper_in_range ''new course'' \<and> data_loaded example_state \<and>
      courses_view example_state = Some ?t \<and> upper (strip ''cs999'') \<notin> fst ` set ?t"
    unfolding n using ex ur by simp
  from T[where ?i1.0 = "''cs999''" and ?i2.0 = "''new course''" and ?i3.0 = "''3''"
        and ?i4.0 = "''A description''" and ?i5.0 = "[]" and ins = "[]",
        THEN conjunct2, THEN conjunct2, THEN conjunct2, THEN conjunct1, THEN mp, OF h4]
  have w1: "conn_courses (fst (snd (add_course example_state [''cs999'', ''new course'', ''3'', ''A description'', []])))
     = Some [(''CS100'', ''Intro'', ''3'', ''Desc'', ''None''), (''CS050'', ''Blank'', ''1'', ''  '', ''None''),
             (''CS999'', ''New Course'', ''3'', ''A description'', ''None'')]"
    unfolding n pr by simp
  have h5: "upper_in_range ''cs100'' \<and> upper_in_range ''new intro'' \<and> data_loaded example_state \<and>
      courses_view example_state = Some ?t \<and> upper (strip ''cs100'') \<in> fst ` set ?t \<and>
      lower (strip ''y'') = ''y''"
    unfolding n using ex ur by simp
  from T[where ?i1.0 = "''cs100''" and ?i2.0 = "''new intro''" and ?i3.0 = "''4''"
        and ?i4.0 = "''New text''" and ?i5.0 = "''CS050''" and c = "''y''" and ins = "[]",
        THEN conjunct2, THEN conjunct2, THEN conjunct2, THEN conjunct2, THEN conjunct1, THEN mp, OF h5]
  have w2: "conn_courses (fst (snd (add_course example_state
       [''cs100'', ''new intro'', ''4'', ''New text'', ''CS050'', ''y''])))
     = Some [(''CS100'', ''New Intro'', ''4'', ''New text'', ''CS050''),
             (''CS050'', ''Blank'', ''1'', ''  '', ''None'')]"
    unfolding n pr by simp
  have h6: "upper_in_range ''cs100'' \<and> data_loaded example_state \<and>
      courses_view example_state = Some ?t \<and> upper (strip ''cs100'') \<in> fst ` set ?t \<and>
      lower (strip ''n'') \<noteq> ''y''"
    unfolding n using ex ur by simp
  from T[where ?i1.0 = "''cs100''" and ?i2.0 = "''new intro''" and ?i3.0 = "''4''"
        and ?i4.0 = "''New text''" and ?i5.0 = "''CS050''" and c = "''n''" and ins = "[]",
        THEN conjunct2, THEN conjunct2, THEN conjunct2, THEN conjunct2, THEN conjunct2,
        THEN conjunct1, THEN mp, OF h6]
  have w3: "conn_courses (fst (snd (add_course example_state
       [''cs100'', ''new intro'', ''4'', ''New text'', ''CS050'', ''n''])))
     = None"
    by (simp add: example_state_def)
  have h7: "data_loaded example_state \<and> courses_view example_state = Some ?t \<and> py_int ''1'' = Some 1 \<and>
      (1::int) \<le> 1 \<and> 1 \<le> int (length ?t) \<and> lower ''Y'' = ''y''"
    unfolding n k using ex by simp
  from T[where k = "''1''" and n = 1 and conf = "''Y''" and ins = "[]",
        THEN conjunct2, THEN conjunct2, THEN conjunct2, THEN conjunct2, THEN conjunct2,
        THEN conjunct2, THEN conjunct1, THEN mp, OF h7]
  have w4: "conn_courses (fst (snd (delete_course example_state [''1'', ''Y''])))
     = Some [(''CS100'', ''Intro'', ''3'', ''Desc'', ''None'')]"
    unfolding sel by simp
  from T[where ins = "[''1'', ''Y'']",
        THEN conjunct2, THEN conjunct2, THEN conjunct2, THEN conjunct2, THEN conjunct2,
        THEN conjunct2, THEN conjunct2, THEN conjunct2, THEN conjunct1]
  have w5: "course_database (fst (snd (delete_course example_state [''1'', ''Y''])))
     = File (Some ?t)"
    unfolding ex .
  have h1: "users_view example_state = Some [(''bob'', ''pw'')] \<and>
      lower (strip ''Alice'') \<notin> fst ` set [(''bob'', ''pw'')]"
    unfolding n using ex by simp
  from T[where u = "''Alice''" and p = "''pw1''" and ins = "[]", THEN conjunct1, THEN mp, OF h1, THEN conjunct1]
  have w6: "user_database (fst (snd (add_user example_state [''Alice'', ''pw1''])))
     = File (Some [(''bob'', ''pw''), (''alice'', ''pw1'')])"
    unfolding n by simp
  have h2: "lower (strip ''Bob'') \<noteq> ''admin'' \<and> users_view example_state = Some [(''bob'', ''pw'')] \<and>
      lower (strip ''Bob'') \<in> fst ` set [(''bob'', ''pw'')]"
    unfolding n using ex by simp
  from T[where u = "''Bob''" and ins = "[]", THEN conjunct2, THEN conjunct1, THEN mp, OF h2, THEN conjunct1]
  have w7: "user_database (fst (snd (delete_user example_state [''Bob''])))
     = File (Some [])"
    unfolding n by simp
  have h3: "lower (strip ''y'') = ''y'' \<and> courselist_csv example_state = Some ?S \<and>
      (\<forall>row\<in>set ?S. 4 \<le> length row) \<and> distinct (map (\<lambda>row. row ! 0) ?S)"
    unfolding n using ex by simp
  from T[where i = "''y''" and ins = "[]", THEN conjunct2, THEN conjunct2, THEN conjunct1, THEN mp, OF h3,
        THEN conjunct1]
  have w8: "course_database (fst (snd (reset_course_list example_state [''y''])))
     = File (Some [(''CS101'', ''Intro to CS'', ''3'', ''Basics of programming'', [])])"
    unfolding csv .
  from commit_points[where st = pending_state and a = "''y''" and ins = "[]",
        THEN conjunct2, THEN conjunct2, THEN conjunct2, THEN conjunct2, THEN conjunct2,
        THEN conjunct2, THEN conjunct2, THEN conjunct2, THEN conjunct2, THEN conjunct1]
  have w9: "course_database (close_connections (fst (snd (option_0 pending_state [''y'']))))
     = File (Some [(''CS100'', ''Intro'', ''3'', ''Desc'', ''None'')])"
    unfolding n pe by (simp add: commit_def)
  from commit_points[where st = pending_state and a = "''n''" and ins = "[]",
        THEN conjunct2, THEN conjunct2, THEN conjunct2, THEN conjunct2, THEN conjunct2,
        THEN conjunct2, THEN conjunct2, THEN conjunct2, THEN conjunct2, THEN conjunct1]
  have w10: "course_database (close_connections (fst (snd (option_0 pending_state [''n'']))))
     = File (Some ?t)"
    unfolding n pe by simp
  from w1 w2 w3 w4 w5 w6 w7 w8 w9 w10 show ?thesis by (intro conjI)
qed

text \<open>C1 as stated fails: the same session, adding course CS999, leaves it stored
  when the exit prompt is answered \<^verbatim>\<open>y\<close> and not stored when it is answered
  \<^verbatim>\<open>n\<close>.\<close>

theorem exit_prompt_counterexample:
  "course_database (snd (program example_files
       [''4'', ''admin'', ''admin'', ''cs999'', ''new course'', ''3'', ''A description'', [], ''0'', ''y'']))
     = File (Some [(''CS100'', ''Intro'', ''3'', ''Desc'', ''None''), (''CS050'', ''Blank'', ''1'', ''  '', ''None''),
                   (''CS999'', ''New Course'', ''3'', ''A description'', ''None'')]) \<and>
   course_database (snd (program example_files
       [''4'', ''admin'', ''admin'', ''cs999'', ''new course'', ''3'', ''A description'', [], ''0'', ''n'']))
     = File (Some [(''CS100'', ''Intro'', ''3'', ''Desc'', ''None''), (''CS050'', ''Blank'', ''1'', ''  '', ''None'')])"
  by (simp add: program_def startup_example main_step_def option_456_def perform_456_def
                add_course_def option_0_def close_connections_def example_state_def
                db_defs str_defs Let_def)

end
